theory Spec2Isabelle
  imports Complex_Main
begin

section \<open>Video generation controller (video\_gen.py)\<close>

text \<open>
  A shallow embedding of \<^verbatim>\<open>src/content-pipeline/video_gen.py\<close> and of the batch loop
  of \<^verbatim>\<open>generate_videos\<close> in \<^verbatim>\<open>src/ContentCreator-0.1/src/main.py\<close>.

  Python floats holding dollar amounts are modelled as \<open>real\<close>: every amount the
  program adds is a multiple of \<open>10 * 0.50 = 5.0\<close>, which binary floating point adds
  and compares exactly far beyond any session length. Logging and \<^verbatim>\<open>time.sleep\<close>
  have no effect on the values computed and are left out; what is kept of a logging call is
  the evaluation of its f-string, which raises when the scene identifier is too long to
  print. Everything outside the process (file system, environment variables, the fal.ai
  service, HTTP downloads, the clock, the MD5 digest of hashlib, the markup renderer of
  rich) is a field of the record \<open>world\<close>, threaded through the calls.
\<close>

subsection \<open>Configuration constants\<close>

definition DEFAULT_DURATION :: real where "DEFAULT_DURATION = 10"
definition MAX_RETRIES :: nat where "MAX_RETRIES = 2"
definition ESTIMATED_COST_PER_SECOND :: real where "ESTIMATED_COST_PER_SECOND = 0.50"
definition MAX_BUDGET_PER_SESSION :: real where "MAX_BUDGET_PER_SESSION = 50.00"

text \<open>
  The interpreter's limit on the number of decimal digits of an integer turned into text
  (\<^verbatim>\<open>sys.int_max_str_digits\<close>, 4300 unless reconfigured).
\<close>

definition int_max_str_digits :: nat where "int_max_str_digits = 4300"

subsection \<open>Data model\<close>

text \<open>The pydantic model \<^verbatim>\<open>Scene\<close> of scene\_parser.py.\<close>

record scene =
  scene_id :: int
  title :: string
  characters :: "string list"
  setting :: string
  summary :: string
  tone :: string

text \<open>One entry of \<^verbatim>\<open>self.generated_videos\<close>.\<close>

record generation_record =
  rec_scene_id :: int
  path :: string
  cost :: real
  generation_time :: real
  prompt_hash :: string

text \<open>The attributes of a \<^verbatim>\<open>VideoGenerator\<close> instance.\<close>

record video_generator =
  dry_run :: bool
  simulate :: bool
  budget_limit :: real
  session_cost :: real
  generated_videos :: "generation_record list"
  cache :: "string \<rightharpoonup> string"
  assets_dir :: string

text \<open>
  Exceptions of the module. \<^verbatim>\<open>BudgetExceededException\<close> is a subclass of
  \<^verbatim>\<open>VideoGenerationError\<close>; \<open>AttributeError\<close>, \<open>OSError\<close> and \<open>ValueError\<close>
  are the builtin exceptions that the library calls of \<^verbatim>\<open>generate_scene_video\<close> can
  raise; \<open>MarkupError\<close> is what rich raises on markup it cannot render. All of them are
  subclasses of \<^verbatim>\<open>Exception\<close>.
\<close>

datatype exn =
  VideoGenerationError string
| BudgetExceededException
| AttributeError
| OSError
| ValueError
| MarkupError

text \<open>
  What \<^verbatim>\<open>fal_client.subscribe\<close> can give back: the value under the key
  \<^verbatim>\<open>"video"\<close> is a dict (with or without a \<^verbatim>\<open>"url"\<close>) or something that has no
  \<^verbatim>\<open>.get\<close>; the key may be missing; the call may return \<^verbatim>\<open>None\<close> or raise.
\<close>

datatype video_field = VideoDict "string option" | VideoNotDict

record response =
  video :: "video_field option"
  duration :: real

datatype api_outcome = ApiRaises | ApiReturns "response option"

datatype download_outcome = DownloadOk | DownloadFails bool

text \<open>
  The lines that \<^verbatim>\<open>generate_videos\<close> prints for a scene with \<^verbatim>\<open>rprint\<close>, each
  with the text it inserts into its markup template: the scene's title, the exception of
  the error line, the path of the verbose line.
\<close>

datatype message =
  SkippedLine string
| SavedLine string
| SavedToLine string
| FailedLine string
| ErrorLine string exn

text \<open>
  \<open>files\<close> holds the paths for which \<^verbatim>\<open>Path(p).exists()\<close> answers
  \<^verbatim>\<open>True\<close>; \<open>exists_raises\<close> holds of the other paths on which it raises
  \<open>OSError\<close> instead of answering \<^verbatim>\<open>False\<close> (a name that is too long, a directory that
  cannot be searched). \<open>rich_renders\<close> tells whether rich accepts a line as console markup.
\<close>

record world =
  md5_hexdigest :: "string \<Rightarrow> string"
  files :: "string set"
  exists_raises :: "string \<Rightarrow> bool"
  rich_renders :: "message \<Rightarrow> bool"
  module_dir :: string
  mkdir_ok :: bool
  write_ok :: "string \<Rightarrow> bool"
  fal_client_installed :: bool
  fal_key :: "string option"
  api_script :: "nat \<Rightarrow> api_outcome"
  api_calls :: nat
  download_script :: "nat \<Rightarrow> download_outcome"
  download_calls :: nat
  elapsed :: real

subsection \<open>String helpers\<close>

text \<open>\<^verbatim>\<open>sep.join(parts)\<close>.\<close>

fun join :: "string \<Rightarrow> string list \<Rightarrow> string" where
  "join sep [] = []"
| "join sep [x] = x"
| "join sep (x # y # ys) = x @ sep @ join sep (y # ys)"

definition digit_char :: "nat \<Rightarrow> char" where
  "digit_char d = char_of (of_char CHR ''0'' + d)"

function str_nat :: "nat \<Rightarrow> string" where
  "str_nat n = (if n < 10 then [digit_char n] else str_nat (n div 10) @ [digit_char (n mod 10)])"
  by pat_completeness auto
termination
  by (relation "measure (\<lambda>n. n)") auto

declare str_nat.simps [simp del]

text \<open>The decimal text of an integer.\<close>

definition str_int :: "int \<Rightarrow> string" where
  "str_int i = (if i < 0 then CHR ''-'' # str_nat (nat (- i)) else str_nat (nat i))"

text \<open>
  Whether the interpreter turns an integer into text: it refuses, with \<open>ValueError\<close>, when
  the integer has more decimal digits than the limit.
\<close>

definition int_prints :: "int \<Rightarrow> bool" where
  "int_prints i = (length (str_nat (nat \<bar>i\<bar>)) \<le> int_max_str_digits)"

text \<open>An integer in an f-string, \<^verbatim>\<open>f"{i}"\<close>.\<close>

definition format_int :: "int \<Rightarrow> exn + string" where
  "format_int i = (if int_prints i then Inr (str_int i) else Inl ValueError)"

text \<open>\<^verbatim>\<open>Path(p).exists()\<close>.\<close>

definition path_exists :: "world \<Rightarrow> string \<Rightarrow> exn + bool" where
  "path_exists w p =
     (if p \<in> files w then Inr True
      else if exists_raises w p then Inl OSError
      else Inr False)"

subsection \<open>Construction\<close>

text \<open>\<^verbatim>\<open>VideoGenerator._init_fal_client\<close>.\<close>

definition init_fal_client :: "video_generator \<Rightarrow> world \<Rightarrow> exn + unit" where
  "init_fal_client g w =
     (if dry_run g \<or> simulate g then Inr ()
      else if \<not> fal_client_installed w then
        Inl (VideoGenerationError ''fal_client not installed. Run: pip install fal'')
      else (case fal_key w of
              None \<Rightarrow> Inl (VideoGenerationError ''FAL_KEY not found in environment variables'')
            | Some api_key \<Rightarrow>
                if api_key = [] then
                  Inl (VideoGenerationError ''FAL_KEY not found in environment variables'')
                else Inr ()))"

text \<open>
  \<^verbatim>\<open>VideoGenerator.__init__\<close>: the attributes are set, the assets directory is
  created (\<^verbatim>\<open>mkdir(exist_ok=True)\<close>, which may raise), then the client is initialised.
\<close>

definition init :: "world \<Rightarrow> bool \<Rightarrow> bool \<Rightarrow> real \<Rightarrow> (exn + video_generator) \<times> world" where
  "init w dry sim limit =
     (let g = \<lparr> dry_run = dry, simulate = sim, budget_limit = limit, session_cost = 0,
                generated_videos = [], cache = Map.empty,
                assets_dir = module_dir w @ ''/assets'' \<rparr>
      in if \<not> mkdir_ok w then (Inl OSError, w)
         else let w' = w\<lparr> files := insert (assets_dir g) (files w) \<rparr>
              in (case init_fal_client g w' of
                    Inl e \<Rightarrow> (Inl e, w')
                  | Inr u \<Rightarrow> (Inr g, w')))"

subsection \<open>Prompt and fingerprint\<close>

text \<open>\<^verbatim>\<open>VideoGenerator._generate_prompt_hash\<close>: the first 12 hex digits of the MD5 digest.\<close>

definition generate_prompt_hash :: "world \<Rightarrow> string \<Rightarrow> string" where
  "generate_prompt_hash w prompt = take 12 (md5_hexdigest w prompt)"

text \<open>\<^verbatim>\<open>VideoGenerator._build_video_prompt\<close>.\<close>

definition build_video_prompt :: "scene \<Rightarrow> string option \<Rightarrow> string" where
  "build_video_prompt sc image_path =
     (let prompt_parts = [''Scene: '' @ title sc, ''Setting: '' @ setting sc];
          prompt_parts = (if characters sc \<noteq> []
                          then prompt_parts @ [''Characters: '' @ join '', '' (characters sc)]
                          else prompt_parts);
          prompt_parts = prompt_parts @ [''Action: '' @ summary sc, ''Tone: '' @ tone sc];
          prompt_parts = prompt_parts @
            [''Style: Cinematic, high quality, professional lighting'',
             ''Camera: Dynamic cinematography with smooth movements'',
             ''Duration: 8-12 seconds'',
             ''Quality: 1080p resolution, 24fps'']
      in join ''. '' prompt_parts)"

subsection \<open>Budget ledger\<close>

text \<open>\<^verbatim>\<open>VideoGenerator._check_budget\<close>.\<close>

definition check_budget :: "video_generator \<Rightarrow> real \<Rightarrow> exn + unit" where
  "check_budget g estimated_cost =
     (let total_cost = session_cost g + estimated_cost
      in if total_cost > budget_limit g then Inl BudgetExceededException else Inr ())"

subsection \<open>External call, download, placeholder file\<close>

text \<open>One call of \<^verbatim>\<open>fal_client.subscribe\<close>: the next outcome of the service.\<close>

definition subscribe :: "world \<Rightarrow> api_outcome \<times> world" where
  "subscribe w = (api_script w (api_calls w), w\<lparr> api_calls := Suc (api_calls w) \<rparr>)"

text \<open>
  The retry loop of \<^verbatim>\<open>_call_fal_api\<close>, over the values of
  \<^verbatim>\<open>range(MAX_RETRIES + 1)\<close> still to come. A response without the video field only logs
  and goes on to the next iteration; an exception goes on while
  \<^verbatim>\<open>attempt < MAX_RETRIES\<close> and breaks otherwise.
\<close>

fun retry_loop :: "nat list \<Rightarrow> world \<Rightarrow> response option \<times> world" where
  "retry_loop [] w = (None, w)"
| "retry_loop (attempt # rest) w =
     (case subscribe w of
        (ApiReturns result, w') \<Rightarrow>
          (case result of
             None \<Rightarrow> retry_loop rest w'
           | Some r \<Rightarrow> if video r \<noteq> None then (Some r, w') else retry_loop rest w')
      | (ApiRaises, w') \<Rightarrow>
          if attempt < MAX_RETRIES then retry_loop rest w' else (None, w'))"

text \<open>
  The test \<^verbatim>\<open>if image_path and Path(image_path).exists()\<close> before the retry loop. Its
  branch only logs, but the test itself raises when the path cannot be probed.
\<close>

definition probe_image :: "world \<Rightarrow> string option \<Rightarrow> exn + unit" where
  "probe_image w image_path =
     (case image_path of
        None \<Rightarrow> Inr ()
      | Some p \<Rightarrow>
          if p = [] then Inr ()
          else (case path_exists w p of Inl e \<Rightarrow> Inl e | Inr b \<Rightarrow> Inr ()))"

text \<open>
  \<^verbatim>\<open>VideoGenerator._call_fal_api\<close>. The two test modes return before the image is
  looked at; in production mode the image test comes first, outside the \<^verbatim>\<open>try\<close> of the
  retry loop.
\<close>

definition call_fal_api ::
  "video_generator \<Rightarrow> world \<Rightarrow> string \<Rightarrow> string option \<Rightarrow>
   (exn + response option) \<times> world" where
  "call_fal_api g w prompt image_path =
     (if dry_run g then
        (Inr (Some \<lparr> video = Some (VideoDict (Some ''https://example.com/mock_video.mp4'')),
                     duration = DEFAULT_DURATION \<rparr>), w)
      else if simulate g then
        (Inr (Some \<lparr> video = Some (VideoDict (Some ''https://example.com/simulated_video.mp4'')),
                     duration = DEFAULT_DURATION \<rparr>), w)
      else (case probe_image w image_path of
              Inl e \<Rightarrow> (Inl e, w)
            | Inr u \<Rightarrow> (case retry_loop [0 ..< MAX_RETRIES + 1] w of (r, w') \<Rightarrow> (Inr r, w'))))"

text \<open>
  \<^verbatim>\<open>VideoGenerator._download_video\<close>: every exception is caught inside and turned into
  \<^verbatim>\<open>False\<close>; a failed transfer may leave a partial file behind.
\<close>

definition download_video :: "world \<Rightarrow> string \<Rightarrow> string \<Rightarrow> bool \<times> world" where
  "download_video w video_url output_path =
     (let w' = w\<lparr> download_calls := Suc (download_calls w) \<rparr>
      in case download_script w (download_calls w) of
           DownloadOk \<Rightarrow> (True, w'\<lparr> files := insert output_path (files w) \<rparr>)
         | DownloadFails partial \<Rightarrow>
             (False, if partial then w'\<lparr> files := insert output_path (files w) \<rparr> else w'))"

text \<open>\<^verbatim>\<open>output_path.write_text(...)\<close>.\<close>

definition write_text :: "world \<Rightarrow> string \<Rightarrow> exn + world" where
  "write_text w p = (if write_ok w p then Inr (w\<lparr> files := insert p (files w) \<rparr>) else Inl OSError)"

subsection \<open>Generating one scene\<close>

definition output_path_of :: "video_generator \<Rightarrow> scene \<Rightarrow> string" where
  "output_path_of g sc = assets_dir g @ ''/'' @ (''scene_'' @ str_int (scene_id sc) @ ''.mp4'')"

text \<open>
  \<^verbatim>\<open>result.get("video", {}).get("url")\<close>: a missing key or a missing url gives
  \<^verbatim>\<open>None\<close>; a video value without \<^verbatim>\<open>.get\<close> raises.
\<close>

definition get_video_url :: "response \<Rightarrow> exn + string option" where
  "get_video_url r =
     (case video r of
        None \<Rightarrow> Inr None
      | Some (VideoDict u) \<Rightarrow> Inr u
      | Some VideoNotDict \<Rightarrow> Inl AttributeError)"

text \<open>The tracking update and the cache store at the end of a successful generation.\<close>

definition update_tracking ::
  "video_generator \<Rightarrow> world \<Rightarrow> scene \<Rightarrow> string \<Rightarrow> real \<Rightarrow> string \<Rightarrow> video_generator" where
  "update_tracking g w sc output_path actual_cost h =
     g\<lparr> session_cost := session_cost g + actual_cost,
        generated_videos := generated_videos g @
          [\<lparr> rec_scene_id = scene_id sc, path = output_path, cost = actual_cost,
             generation_time = elapsed w, prompt_hash = h \<rparr>],
        cache := (cache g)(h \<mapsto> output_path) \<rparr>"

text \<open>
  The body of the \<^verbatim>\<open>try\<close> block of \<^verbatim>\<open>generate_scene_video\<close> from the budget check
  on. The result is the exception raised or the value returned, with the generator and the
  world as the body left them.
\<close>

definition generate_uncached ::
  "video_generator \<Rightarrow> world \<Rightarrow> scene \<Rightarrow> string option \<Rightarrow> string \<Rightarrow> string \<Rightarrow>
   (exn + string option) \<times> video_generator \<times> world" where
  "generate_uncached g w sc image_path prompt h =
     (let estimated_cost = DEFAULT_DURATION * ESTIMATED_COST_PER_SECOND
      in case check_budget g estimated_cost of
           Inl e \<Rightarrow> (Inl e, g, w)
         | Inr u \<Rightarrow>
            (let output_path = output_path_of g sc
             in case call_fal_api g w prompt image_path of
                  (Inl e, w1) \<Rightarrow> (Inl e, g, w1)
                | (Inr None, w1) \<Rightarrow> (Inr None, g, w1)
                | (Inr (Some result), w1) \<Rightarrow>
                   (case get_video_url result of
                      Inl e \<Rightarrow> (Inl e, g, w1)
                    | Inr None \<Rightarrow> (Inr None, g, w1)
                    | Inr (Some video_url) \<Rightarrow>
                       if video_url = [] then (Inr None, g, w1)
                       else if \<not> dry_run g \<and> \<not> simulate g then
                         (case download_video w1 video_url output_path of
                            (False, w2) \<Rightarrow> (Inr None, g, w2)
                          | (True, w2) \<Rightarrow>
                              (Inr (Some output_path),
                               update_tracking g w2 sc output_path estimated_cost h, w2))
                       else
                         (case write_text w1 output_path of
                            Inl e \<Rightarrow> (Inl e, g, w1)
                          | Inr w2 \<Rightarrow>
                              (Inr (Some output_path),
                               update_tracking g w2 sc output_path estimated_cost h, w2)))))"

text \<open>
  The whole \<^verbatim>\<open>try\<close> block: prompt, fingerprint, cache lookup, then the rest. The
  first f-string that prints \<^verbatim>\<open>scene.id\<close> is the logging line at the end of
  \<^verbatim>\<open>_build_video_prompt\<close>; once it has been evaluated, the later f-strings of the
  block print the same identifier and cannot fail on it.
\<close>

definition generate_scene_video_body ::
  "video_generator \<Rightarrow> world \<Rightarrow> scene \<Rightarrow> string option \<Rightarrow>
   (exn + string option) \<times> video_generator \<times> world" where
  "generate_scene_video_body g w sc image_path =
     (case format_int (scene_id sc) of
        Inl e \<Rightarrow> (Inl e, g, w)
      | Inr shown \<Rightarrow>
         (let prompt = build_video_prompt sc image_path;
              h = generate_prompt_hash w prompt
          in case cache g h of
               Some cached_path \<Rightarrow>
                 (case path_exists w cached_path of
                    Inl e \<Rightarrow> (Inl e, g, w)
                  | Inr True \<Rightarrow> (Inr (Some cached_path), g, w)
                  | Inr False \<Rightarrow> generate_uncached g w sc image_path prompt h)
             | None \<Rightarrow> generate_uncached g w sc image_path prompt h))"

text \<open>
  One of the two \<^verbatim>\<open>except\<close> clauses of \<^verbatim>\<open>generate_scene_video\<close>: the message
  for the log is an f-string that prints \<^verbatim>\<open>scene.id\<close> again; when that raises, the
  exception leaves the function, otherwise the clause returns \<^verbatim>\<open>None\<close>.
\<close>

definition handler :: "scene \<Rightarrow> exn + string option" where
  "handler sc = (case format_int (scene_id sc) of Inl e \<Rightarrow> Inl e | Inr shown \<Rightarrow> Inr None)"

text \<open>
  \<^verbatim>\<open>VideoGenerator.generate_scene_video\<close>: the body under its two handlers. The
  result is the exception that leaves the function, or the value returned.
\<close>

definition generate_scene_video ::
  "video_generator \<Rightarrow> world \<Rightarrow> scene \<Rightarrow> string option \<Rightarrow>
   (exn + string option) \<times> video_generator \<times> world" where
  "generate_scene_video g w sc image_path =
     (case generate_scene_video_body g w sc image_path of
        (Inl BudgetExceededException, g', w') \<Rightarrow> (handler sc, g', w')
      | (Inl e, g', w') \<Rightarrow> (handler sc, g', w')
      | (Inr r, g', w') \<Rightarrow> (Inr r, g', w'))"

text \<open>\<^verbatim>\<open>VideoGenerator.get_session_summary\<close>.\<close>

record session_summary =
  videos_generated :: nat
  total_cost :: real
  budget_remaining :: real
  videos :: "generation_record list"
  summary_dry_run :: bool
  summary_simulate :: bool

definition get_session_summary :: "video_generator \<Rightarrow> session_summary" where
  "get_session_summary g =
     \<lparr> videos_generated = length (generated_videos g),
       total_cost = session_cost g,
       budget_remaining = budget_limit g - session_cost g,
       videos = generated_videos g,
       summary_dry_run = dry_run g,
       summary_simulate = simulate g \<rparr>"

text \<open>
  An attempt of the retry loop fails when \<^verbatim>\<open>subscribe\<close> raises, returns nothing, or
  returns a response without the video field.
\<close>

fun attempt_fails :: "api_outcome \<Rightarrow> bool" where
  "attempt_fails ApiRaises = True"
| "attempt_fails (ApiReturns None) = True"
| "attempt_fails (ApiReturns (Some r)) = (video r = None)"

subsection \<open>Sessions\<close>

text \<open>
  A session is a sequence of \<^verbatim>\<open>generate_scene_video\<close> calls on one generator. Between
  two calls anything outside the process may have changed, so every request comes with the
  world it is made in; only the generator is carried from one call to the next.
\<close>

fun run_session ::
  "video_generator \<Rightarrow> (world \<times> scene \<times> string option) list \<Rightarrow> video_generator" where
  "run_session g [] = g"
| "run_session g ((w, sc, image_path) # rest) =
     run_session (fst (snd (generate_scene_video g w sc image_path))) rest"

text \<open>
  Whether the cache lookup of \<^verbatim>\<open>generate_scene_video\<close> answers the request: the
  fingerprint is in the cache and the cached file exists.
\<close>

definition served_from_cache :: "video_generator \<Rightarrow> world \<Rightarrow> scene \<Rightarrow> bool" where
  "served_from_cache g w sc =
     (case cache g (generate_prompt_hash w (build_video_prompt sc None)) of
        None \<Rightarrow> False
      | Some cached_path \<Rightarrow> cached_path \<in> files w)"

text \<open>
  Whether the cache lookup raises: the fingerprint is in the cache, and the cached path is
  one that cannot be probed.
\<close>

definition cache_probe_raises :: "video_generator \<Rightarrow> world \<Rightarrow> scene \<Rightarrow> bool" where
  "cache_probe_raises g w sc =
     (case cache g (generate_prompt_hash w (build_video_prompt sc None)) of
        None \<Rightarrow> False
      | Some cached_path \<Rightarrow> cached_path \<notin> files w \<and> exists_raises w cached_path)"

text \<open>Whether the reference image of a request is one that cannot be probed.\<close>

definition image_probe_raises :: "world \<Rightarrow> string option \<Rightarrow> bool" where
  "image_probe_raises w image_path =
     (case image_path of
        None \<Rightarrow> False
      | Some p \<Rightarrow> p \<noteq> [] \<and> p \<notin> files w \<and> exists_raises w p)"

subsection \<open>The batch loop of generate\_videos (main.py)\<close>

text \<open>
  What \<^verbatim>\<open>results[scene.id]\<close> holds: the string \<^verbatim>\<open>"skipped"\<close>, a path, or
  \<^verbatim>\<open>None\<close>.
\<close>

datatype batch_result = Skipped | Saved string | NoVideo

record batch_options =
  skip_existing :: bool
  existing_videos :: "int \<rightharpoonup> bool"
  use_images :: bool
  existing_images :: "int \<rightharpoonup> bool"
  main_assets_dir :: string
  verbose :: bool

text \<open>\<^verbatim>\<open>d.get(key, False)\<close>.\<close>

definition get_or_False :: "(int \<rightharpoonup> bool) \<Rightarrow> int \<Rightarrow> bool" where
  "get_or_False d k = (case d k of None \<Rightarrow> False | Some b \<Rightarrow> b)"

text \<open>
  The reference image handed to the generator: the scene's image in the assets directory of
  main.py when images are used and that image exists, \<^verbatim>\<open>None\<close> otherwise.
\<close>

definition reference_image_path :: "batch_options \<Rightarrow> scene \<Rightarrow> string option" where
  "reference_image_path opts sc =
     (if use_images opts \<and> get_or_False (existing_images opts) (scene_id sc)
      then Some (main_assets_dir opts @ ''/'' @ (''scene_'' @ str_int (scene_id sc) @ ''.png''))
      else None)"

text \<open>\<^verbatim>\<open>rprint(line)\<close>: rich renders the line or raises.\<close>

definition rprint :: "world \<Rightarrow> message \<Rightarrow> exn + unit" where
  "rprint w m = (if rich_renders w m then Inr () else Inl MarkupError)"

text \<open>
  The statements of the \<^verbatim>\<open>try\<close> block after the call of
  \<^verbatim>\<open>generate_scene_video\<close>, given what the call returned: the entry written to
  \<^verbatim>\<open>results\<close> and the line printed. An exception raised while printing leaves the block
  after the entry has been written.
\<close>

definition report_outcome ::
  "batch_options \<Rightarrow> world \<Rightarrow> scene \<Rightarrow> string option \<Rightarrow> (int \<rightharpoonup> batch_result) \<Rightarrow>
   exn + (int \<rightharpoonup> batch_result)" where
  "report_outcome opts w sc video_path results =
     (case video_path of
        None \<Rightarrow>
          (case rprint w (FailedLine (title sc)) of
             Inl e \<Rightarrow> Inl e
           | Inr u \<Rightarrow> Inr (results(scene_id sc \<mapsto> NoVideo)))
      | Some p \<Rightarrow>
          if p \<noteq> [] then
            (case rprint w (SavedLine (title sc)) of
               Inl e \<Rightarrow> Inl e
             | Inr u \<Rightarrow>
                 if verbose opts then
                   (case rprint w (SavedToLine p) of
                      Inl e \<Rightarrow> Inl e
                    | Inr u \<Rightarrow> Inr (results(scene_id sc \<mapsto> Saved p)))
                 else Inr (results(scene_id sc \<mapsto> Saved p)))
          else
            (case rprint w (FailedLine (title sc)) of
               Inl e \<Rightarrow> Inl e
             | Inr u \<Rightarrow> Inr (results(scene_id sc \<mapsto> NoVideo))))"

text \<open>
  The \<^verbatim>\<open>except Exception as e\<close> clause of the loop: the entry is set to \<^verbatim>\<open>None\<close>
  and the error line is printed, with the title once more and the text of the exception;
  when that raises, the exception leaves the loop.
\<close>

definition loop_handler ::
  "world \<Rightarrow> scene \<Rightarrow> exn \<Rightarrow> (int \<rightharpoonup> batch_result) \<Rightarrow> exn + (int \<rightharpoonup> batch_result)" where
  "loop_handler w sc e results =
     (case rprint w (ErrorLine (title sc) e) of
        Inl e' \<Rightarrow> Inl e'
      | Inr u \<Rightarrow> Inr (results(scene_id sc \<mapsto> NoVideo)))"

text \<open>The \<^verbatim>\<open>try\<close> statement of the loop, from the value of the call on.\<close>

definition try_report ::
  "batch_options \<Rightarrow> world \<Rightarrow> scene \<Rightarrow> exn + string option \<Rightarrow> (int \<rightharpoonup> batch_result) \<Rightarrow>
   exn + (int \<rightharpoonup> batch_result)" where
  "try_report opts w sc outcome results =
     (case outcome of
        Inl e \<Rightarrow> loop_handler w sc e results
      | Inr video_path \<Rightarrow>
          (case report_outcome opts w sc video_path results of
             Inl e \<Rightarrow> loop_handler w sc e results
           | Inr results' \<Rightarrow> Inr results'))"

text \<open>
  The \<^verbatim>\<open>for\<close> loop over the scenes. \<^verbatim>\<open>break\<close> ends the recursion; an exception
  that leaves the loop ends it too, and the first component says which. Every pass starts
  with the f-string of the progress line, which prints \<^verbatim>\<open>scene.id\<close>; the later
  f-strings of the pass print the same identifier. The progress display renders its line on
  its own schedule, which is not part of the loop. The line for an exhausted budget has
  fixed text and a small number. The last component is not a variable of the source: it
  records, in order, the scenes for which \<^verbatim>\<open>generate_scene_video\<close> was called.
\<close>

fun videos_loop ::
  "batch_options \<Rightarrow> scene list \<Rightarrow> video_generator \<Rightarrow> world \<Rightarrow> (int \<rightharpoonup> batch_result) \<Rightarrow>
   int list \<Rightarrow> (exn + (int \<rightharpoonup> batch_result)) \<times> video_generator \<times> world \<times> int list" where
  "videos_loop opts [] g w results attempted = (Inr results, g, w, attempted)"
| "videos_loop opts (sc # rest) g w results attempted =
     (case format_int (scene_id sc) of
        Inl e \<Rightarrow> (Inl e, g, w, attempted)
      | Inr shown \<Rightarrow>
         if skip_existing opts \<and> get_or_False (existing_videos opts) (scene_id sc) then
           (case rprint w (SkippedLine (title sc)) of
              Inl e \<Rightarrow> (Inl e, g, w, attempted)
            | Inr u \<Rightarrow> videos_loop opts rest g w (results(scene_id sc \<mapsto> Skipped)) attempted)
         else if budget_remaining (get_session_summary g) \<le> 0 then
           (Inr results, g, w, attempted)
         else
           (let image_path = reference_image_path opts sc
            in case generate_scene_video g w sc image_path of
                 (outcome, g', w') \<Rightarrow>
                   (case try_report opts w' sc outcome results of
                      Inl e \<Rightarrow> (Inl e, g', w', attempted @ [scene_id sc])
                    | Inr results' \<Rightarrow>
                        videos_loop opts rest g' w' results' (attempted @ [scene_id sc]))))"

subsection \<open>Concrete inputs\<close>

text \<open>The scene of the test suite's fixture.\<close>

definition sample_scene :: scene where
  "sample_scene =
     \<lparr> scene_id = 1, title = ''Forest Encounter'',
       characters = [''Lena'', ''Mysterious Stranger''],
       setting = ''Dark forest with ancient oak trees'',
       summary = ''Lena meets a cloaked stranger'',
       tone = ''mysterious, suspenseful'' \<rparr>"

definition good_response :: response where
  "good_response =
     \<lparr> video = Some (VideoDict (Some ''https://example.com/test_video.mp4'')), duration = 10 \<rparr>"

text \<open>A scene with another title, and so another prompt.\<close>

definition battle_scene :: scene where
  "battle_scene =
     \<lparr> scene_id = 2, title = ''Epic Battle'',
       characters = [''Hero'', ''Villain''],
       setting = ''Ancient castle courtyard at sunset'',
       summary = ''The hero confronts the villain'',
       tone = ''dramatic, intense'' \<rparr>"

text \<open>A scene whose identifier has 5001 digits.\<close>

definition huge_scene :: scene where
  "huge_scene = sample_scene\<lparr> scene_id := 10 ^ 5000 \<rparr>"

text \<open>
  The MD5 hex digests of the prompts of the two scenes above; the value given to any other
  text is a stand-in that no statement below depends on.
\<close>

definition sample_md5 :: "string \<Rightarrow> string" where
  "sample_md5 s =
     (if s = build_video_prompt sample_scene None then ''6e085c30e4407d48aea37d3f2f540153''
      else if s = build_video_prompt battle_scene None then ''cb94ed7a20850a68d37415320590fc47''
      else ''00000000000000000000000000000000'')"

text \<open>A world in which every external operation succeeds.\<close>

definition friendly_world :: world where
  "friendly_world =
     \<lparr> md5_hexdigest = sample_md5,
       files = {},
       exists_raises = (\<lambda>p. False),
       rich_renders = (\<lambda>m. True),
       module_dir = ''/app'',
       mkdir_ok = True,
       write_ok = (\<lambda>p. True),
       fal_client_installed = True,
       fal_key = Some ''test_key'',
       api_script = (\<lambda>n. ApiReturns (Some good_response)),
       api_calls = 0,
       download_script = (\<lambda>n. DownloadOk),
       download_calls = 0,
       elapsed = 1 \<rparr>"

text \<open>A generator as the constructor leaves it, for the given mode and budget.\<close>

definition fresh_generator :: "bool \<Rightarrow> bool \<Rightarrow> real \<Rightarrow> video_generator" where
  "fresh_generator dry sim limit =
     \<lparr> dry_run = dry, simulate = sim, budget_limit = limit, session_cost = 0,
       generated_videos = [], cache = Map.empty, assets_dir = ''/app/assets'' \<rparr>"

text \<open>
  The state after one dry-run generation with a budget of 5.0, and after one production
  generation with a given budget.
\<close>

definition after_first_call :: "(exn + string option) \<times> video_generator \<times> world" where
  "after_first_call =
     generate_scene_video (fresh_generator True False 5) friendly_world sample_scene None"

definition after_first_production_call ::
  "real \<Rightarrow> (exn + string option) \<times> video_generator \<times> world" where
  "after_first_production_call limit =
     generate_scene_video (fresh_generator False False limit) friendly_world sample_scene None"

text \<open>The world of the production call above once the generated file has been deleted.\<close>

definition stale_world :: "real \<Rightarrow> world" where
  "stale_world limit = (snd (snd (after_first_production_call limit)))\<lparr> files := {} \<rparr>"

text \<open>A service that fails in three different ways, one after the other.\<close>

definition flaky_world :: world where
  "flaky_world = friendly_world\<lparr> api_script :=
     (\<lambda>n. if n = 0 then ApiRaises
          else if n = 1 then ApiReturns None
          else ApiReturns (Some \<lparr> video = None, duration = 10 \<rparr>)) \<rparr>"

text \<open>A service whose response carries a video value that is not a dict.\<close>

definition malformed_response :: response where
  "malformed_response = \<lparr> video = Some VideoNotDict, duration = 10 \<rparr>"

definition malformed_world :: world where
  "malformed_world = friendly_world\<lparr> api_script := (\<lambda>n. ApiReturns (Some malformed_response)) \<rparr>"

text \<open>A batch of two scenes with no skipping and no reference images.\<close>

definition second_scene :: scene where
  "second_scene = sample_scene\<lparr> scene_id := 2 \<rparr>"

definition third_scene :: scene where
  "third_scene = battle_scene\<lparr> scene_id := 3 \<rparr>"

definition plain_options :: batch_options where
  "plain_options =
     \<lparr> skip_existing = False, existing_videos = Map.empty, use_images = False,
       existing_images = Map.empty, main_assets_dir = ''/app/assets'', verbose = False \<rparr>"

text \<open>
  A scene whose title closes a markup tag that the title did not open, and a world in which
  rich refuses the lines that carry this title.
\<close>

definition tagged_scene :: scene where
  "tagged_scene = sample_scene\<lparr> title := ''Act [/] One'' \<rparr>"

fun line_title :: "message \<Rightarrow> string" where
  "line_title (SkippedLine t) = t"
| "line_title (SavedLine t) = t"
| "line_title (SavedToLine p) = []"
| "line_title (FailedLine t) = t"
| "line_title (ErrorLine t e) = t"

definition strict_world :: world where
  "strict_world = friendly_world\<lparr> rich_renders := (\<lambda>m. line_title m \<noteq> ''Act [/] One'') \<rparr>"

section \<open>Properties\<close>

subsection \<open>Auxiliary facts\<close>

lemma estimated_cost_value: "DEFAULT_DURATION * ESTIMATED_COST_PER_SECOND = 5"
  by (simp add: DEFAULT_DURATION_def ESTIMATED_COST_PER_SECOND_def)

lemma check_budget_cases:
  "check_budget g c = Inr () \<longleftrightarrow> session_cost g + c \<le> budget_limit g"
  "check_budget g c = Inl e \<longleftrightarrow> e = BudgetExceededException \<and> session_cost g + c > budget_limit g"
  by (auto simp: check_budget_def Let_def)

lemma length_str_nat_ge: "10 ^ k \<le> n \<Longrightarrow> k < length (str_nat n)"
proof (induction k arbitrary: n)
  case 0
  show ?case by (subst str_nat.simps) simp
next
  case (Suc k)
  have "(1::nat) \<le> 10 ^ k" by simp
  then have "(10::nat) \<le> 10 ^ Suc k" by simp
  with Suc.prems have big: "10 \<le> n" by linarith
  from Suc.prems have "10 ^ k \<le> n div 10" by (simp add: less_eq_div_iff_mult_less_eq)
  from Suc.IH[OF this] have "k < length (str_nat (n div 10))" .
  moreover have "str_nat n = str_nat (n div 10) @ [digit_char (n mod 10)]"
    using big by (subst str_nat.simps) simp
  ultimately show ?case by simp
qed

lemma int_prints_small:
  assumes "\<bar>i\<bar> < 10"
  shows "int_prints i"
proof -
  from assms have "nat \<bar>i\<bar> < 10" by simp
  then have "str_nat (nat \<bar>i\<bar>) = [digit_char (nat \<bar>i\<bar>)]"
    by (subst str_nat.simps) simp
  then show ?thesis by (simp add: int_prints_def int_max_str_digits_def)
qed

lemma power_does_not_print:
  assumes "int_max_str_digits \<le> k"
  shows "\<not> int_prints (10 ^ k)"
proof -
  have n: "nat \<bar>10 ^ k :: int\<bar> = 10 ^ k" by (simp add: nat_power_eq)
  have "(10::nat) ^ int_max_str_digits \<le> 10 ^ k"
    using assms by (intro power_increasing) simp_all
  then have "int_max_str_digits < length (str_nat (10 ^ k))"
    by (rule length_str_nat_ge)
  then show ?thesis unfolding int_prints_def n by simp
qed

lemma format_int_cases:
  "int_prints i \<Longrightarrow> format_int i = Inr (str_int i)"
  "\<not> int_prints i \<Longrightarrow> format_int i = Inl ValueError"
  by (simp_all add: format_int_def)

lemma handler_value:
  "handler sc = (if int_prints (scene_id sc) then Inr None else Inl ValueError)"
  by (simp add: handler_def format_int_def)

lemma generate_uncached_cases:
  assumes "generate_uncached g w sc img p h = (r, g', w')"
  shows "(g' = g \<and> (\<forall>q. r \<noteq> Inr (Some q)))
       \<or> (r = Inr (Some (output_path_of g sc)) \<and>
          session_cost g + 5 \<le> budget_limit g \<and>
          output_path_of g sc \<in> files w' \<and>
          g' = update_tracking g w' sc (output_path_of g sc) 5 h)"
  using assms
  unfolding generate_uncached_def estimated_cost_value Let_def
  by (auto simp: check_budget_cases download_video_def write_text_def Let_def
      split: sum.splits option.splits prod.splits if_splits bool.splits download_outcome.splits)

lemma generate_uncached_over_budget:
  "session_cost g + 5 > budget_limit g \<Longrightarrow>
   generate_uncached g w sc img p h = (Inl BudgetExceededException, g, w)"
  unfolding generate_uncached_def estimated_cost_value Let_def
  by (simp add: check_budget_def)

lemma build_video_prompt_image: "build_video_prompt sc img = build_video_prompt sc None"
  by (simp add: build_video_prompt_def)

lemma body_no_print:
  "\<not> int_prints (scene_id sc) \<Longrightarrow>
   generate_scene_video_body g w sc img = (Inl ValueError, g, w)"
  by (simp add: generate_scene_video_body_def format_int_def)

lemma body_served:
  "int_prints (scene_id sc) \<Longrightarrow> served_from_cache g w sc \<Longrightarrow>
   \<exists>p. cache g (generate_prompt_hash w (build_video_prompt sc None)) = Some p \<and> p \<in> files w \<and>
   generate_scene_video_body g w sc img = (Inr (Some p), g, w)"
  unfolding generate_scene_video_body_def served_from_cache_def Let_def
  by (auto simp: build_video_prompt_image[of sc img] format_int_def path_exists_def
      split: option.splits)

lemma body_probe_raises:
  "int_prints (scene_id sc) \<Longrightarrow> cache_probe_raises g w sc \<Longrightarrow>
   generate_scene_video_body g w sc img = (Inl OSError, g, w)"
  unfolding generate_scene_video_body_def cache_probe_raises_def Let_def
  by (auto simp: build_video_prompt_image[of sc img] format_int_def path_exists_def
      split: option.splits)

lemma body_miss:
  "int_prints (scene_id sc) \<Longrightarrow> \<not> served_from_cache g w sc \<Longrightarrow> \<not> cache_probe_raises g w sc \<Longrightarrow>
   generate_scene_video_body g w sc img =
   generate_uncached g w sc img (build_video_prompt sc None)
     (generate_prompt_hash w (build_video_prompt sc None))"
  unfolding generate_scene_video_body_def served_from_cache_def cache_probe_raises_def Let_def
  by (auto simp: build_video_prompt_image[of sc img] format_int_def path_exists_def
      split: option.splits)

lemma gsv_of_body:
  "generate_scene_video g w sc img =
   (case generate_scene_video_body g w sc img of
      (r, g', w') \<Rightarrow> ((case r of Inl e \<Rightarrow> handler sc | Inr x \<Rightarrow> Inr x), g', w'))"
  unfolding generate_scene_video_def
  by (simp split: prod.splits sum.splits exn.splits)

lemma gsv_no_print:
  "\<not> int_prints (scene_id sc) \<Longrightarrow> generate_scene_video g w sc img = (Inl ValueError, g, w)"
  by (simp add: gsv_of_body body_no_print handler_value)

lemma gsv_probe_raises:
  "int_prints (scene_id sc) \<Longrightarrow> cache_probe_raises g w sc \<Longrightarrow>
   generate_scene_video g w sc img = (Inr None, g, w)"
  by (simp add: gsv_of_body body_probe_raises handler_value)

lemma gsv_served:
  assumes "int_prints (scene_id sc)" and "served_from_cache g w sc"
  shows "\<exists>p. cache g (generate_prompt_hash w (build_video_prompt sc None)) = Some p \<and>
             p \<in> files w \<and> generate_scene_video g w sc img = (Inr (Some p), g, w)"
  using body_served[OF assms, of img] by (auto simp: gsv_of_body)

lemma served_not_raises: "served_from_cache g w sc \<Longrightarrow> \<not> cache_probe_raises g w sc"
  by (auto simp: served_from_cache_def cache_probe_raises_def split: option.splits)

lemma gsv_cases:
  assumes "generate_scene_video g w sc img = (r, g', w')"
  shows "(g' = g \<and> ((\<forall>q. r \<noteq> Inr (Some q)) \<or>
                     (int_prints (scene_id sc) \<and> served_from_cache g w sc \<and> w' = w)))
       \<or> (int_prints (scene_id sc) \<and> \<not> served_from_cache g w sc \<and>
          r = Inr (Some (output_path_of g sc)) \<and>
          session_cost g + 5 \<le> budget_limit g \<and>
          output_path_of g sc \<in> files w' \<and>
          g' = update_tracking g w' sc (output_path_of g sc) 5
                 (generate_prompt_hash w (build_video_prompt sc None)))"
proof (cases "int_prints (scene_id sc)")
  case False
  from gsv_no_print[OF False, of g w img] assms show ?thesis by auto
next
  case pr: True
  show ?thesis
  proof (cases "served_from_cache g w sc")
    case True
    from gsv_served[OF pr True, of img] assms pr True show ?thesis by auto
  next
    case ns: False
    show ?thesis
    proof (cases "cache_probe_raises g w sc")
      case True
      from gsv_probe_raises[OF pr True, of img] assms show ?thesis by auto
    next
      case False
      obtain rb gb wb where u: "generate_uncached g w sc img (build_video_prompt sc None)
         (generate_prompt_hash w (build_video_prompt sc None)) = (rb, gb, wb)"
        by (cases "generate_uncached g w sc img (build_video_prompt sc None)
         (generate_prompt_hash w (build_video_prompt sc None))") auto
      from assms have eq: "r = (case rb of Inl e \<Rightarrow> handler sc | Inr x \<Rightarrow> Inr x)"
        "g' = gb" "w' = wb"
        by (simp_all add: gsv_of_body body_miss[OF pr ns False] u)
      from generate_uncached_cases[OF u] show ?thesis
        using eq ns pr by (cases rb) (auto simp: handler_value)
    qed
  qed
qed

lemma gsv_budget_inv:
  assumes "generate_scene_video g w sc img = (r, g', w')"
  shows "budget_limit g' = budget_limit g"
    and "session_cost g \<le> budget_limit g \<Longrightarrow> session_cost g' \<le> budget_limit g"
  using gsv_cases[OF assms] by (auto simp: update_tracking_def)

lemma run_session_inv:
  "session_cost g \<le> budget_limit g \<Longrightarrow>
   session_cost (run_session g reqs) \<le> budget_limit g \<and>
   budget_limit (run_session g reqs) = budget_limit g"
proof (induction reqs arbitrary: g)
  case Nil
  then show ?case by simp
next
  case (Cons a reqs)
  obtain w sc img where a: "a = (w, sc, img)" by (cases a) auto
  obtain r g' w' where c: "generate_scene_video g w sc img = (r, g', w')"
    by (cases "generate_scene_video g w sc img") auto
  from gsv_budget_inv[OF c] Cons.prems have "session_cost g' \<le> budget_limit g'" "budget_limit g' = budget_limit g"
    by auto
  with Cons.IH[of g'] show ?case by (simp add: a c)
qed

lemma init_Inr:
  "fst (init w dry sim limit) = Inr g \<Longrightarrow>
   g = \<lparr> dry_run = dry, simulate = sim, budget_limit = limit, session_cost = 0,
         generated_videos = [], cache = Map.empty, assets_dir = module_dir w @ ''/assets'' \<rparr>"
  unfolding init_def Let_def by (auto split: if_splits sum.splits)

lemma gsv_over_budget:
  assumes "\<not> served_from_cache g w sc" and "session_cost g + 5 > budget_limit g"
  shows "generate_scene_video g w sc img = (handler sc, g, w)"
proof (cases "int_prints (scene_id sc)")
  case False
  then show ?thesis by (simp add: gsv_no_print handler_value)
next
  case pr: True
  show ?thesis
  proof (cases "cache_probe_raises g w sc")
    case True
    then show ?thesis by (simp add: gsv_probe_raises pr handler_value)
  next
    case False
    then show ?thesis
      by (simp add: gsv_of_body body_miss[OF pr assms(1)] generate_uncached_over_budget[OF assms(2)])
  qed
qed

lemma sample_ids_print:
  "int_prints (scene_id sample_scene)" "int_prints (scene_id second_scene)"
  "int_prints (scene_id battle_scene)" "int_prints (scene_id third_scene)"
  "int_prints (scene_id tagged_scene)"
  by (simp_all add: sample_scene_def second_scene_def battle_scene_def third_scene_def
      tagged_scene_def int_prints_small)

lemma huge_id_does_not_print: "\<not> int_prints (scene_id huge_scene)"
  unfolding huge_scene_def
  by (simp del: power_numeral) (rule power_does_not_print, simp add: int_max_str_digits_def)

lemma call_fal_api_test_mode:
  "dry_run g \<or> simulate g \<Longrightarrow>
   \<exists>u. u \<noteq> [] \<and> call_fal_api g w prompt img =
     (Inr (Some \<lparr> video = Some (VideoDict (Some u)), duration = DEFAULT_DURATION \<rparr>), w)"
  by (auto simp: call_fal_api_def)

lemma generate_uncached_test_mode:
  assumes "dry_run g \<or> simulate g" and "session_cost g + 5 \<le> budget_limit g"
  shows "generate_uncached g w sc img p h =
     (if write_ok w (output_path_of g sc)
      then (Inr (Some (output_path_of g sc)),
            update_tracking g w sc (output_path_of g sc) 5 h,
            w\<lparr> files := insert (output_path_of g sc) (files w) \<rparr>)
      else (Inl OSError, g, w))"
proof -
  from call_fal_api_test_mode[OF assms(1), of w p img] obtain u where
    u: "u \<noteq> []" "call_fal_api g w p img =
     (Inr (Some \<lparr> video = Some (VideoDict (Some u)), duration = DEFAULT_DURATION \<rparr>), w)" by blast
  have b: "check_budget g 5 = Inr ()" using assms(2) by (simp add: check_budget_cases)
  show ?thesis
    unfolding generate_uncached_def estimated_cost_value Let_def
    using assms(1) u
    by (auto simp: b get_video_url_def write_text_def update_tracking_def)
qed

lemma gsv_test_mode:
  assumes "dry_run g \<or> simulate g" and "int_prints (scene_id sc)"
    and "\<not> served_from_cache g w sc" and "\<not> cache_probe_raises g w sc"
    and "session_cost g + 5 \<le> budget_limit g"
  shows "generate_scene_video g w sc img =
     (if write_ok w (output_path_of g sc)
      then (Inr (Some (output_path_of g sc)),
            update_tracking g w sc (output_path_of g sc) 5
              (generate_prompt_hash w (build_video_prompt sc None)),
            w\<lparr> files := insert (output_path_of g sc) (files w) \<rparr>)
      else (Inr None, g, w))"
  by (simp add: gsv_of_body body_miss[OF assms(2,3,4)]
      generate_uncached_test_mode[OF assms(1) assms(5)] handler_value assms(2))

lemma not_served_fresh: "\<not> served_from_cache (fresh_generator d s l) w sc"
  by (simp add: served_from_cache_def fresh_generator_def)

lemma no_probe_raise_fresh: "\<not> cache_probe_raises (fresh_generator d s l) w sc"
  by (simp add: cache_probe_raises_def fresh_generator_def)

lemma no_probe_raise: "exists_raises w = (\<lambda>p. False) \<Longrightarrow> \<not> cache_probe_raises g w sc"
  by (simp add: cache_probe_raises_def split: option.splits)

lemma friendly_no_raise: "exists_raises friendly_world = (\<lambda>p. False)"
  by (simp add: friendly_world_def)

lemma init_friendly:
  "init friendly_world d s l =
   (Inr (fresh_generator d s l), friendly_world\<lparr> files := {''/app/assets''} \<rparr>)"
  by (simp add: init_def friendly_world_def fresh_generator_def init_fal_client_def Let_def)

lemma first_dry_run_call:
  "5 \<le> l \<Longrightarrow> generate_scene_video (fresh_generator True s l) friendly_world sample_scene img =
     (Inr (Some (output_path_of (fresh_generator True s l) sample_scene)),
      update_tracking (fresh_generator True s l) friendly_world sample_scene
        (output_path_of (fresh_generator True s l) sample_scene) 5
        (generate_prompt_hash friendly_world (build_video_prompt sample_scene None)),
      friendly_world\<lparr> files := {output_path_of (fresh_generator True s l) sample_scene} \<rparr>)"
  by (subst gsv_test_mode)
     (simp_all add: not_served_fresh no_probe_raise_fresh sample_ids_print,
      simp_all add: fresh_generator_def friendly_world_def)

lemma after_first_call_value:
  "after_first_call =
     (Inr (Some (output_path_of (fresh_generator True False 5) sample_scene)),
      update_tracking (fresh_generator True False 5) friendly_world sample_scene
        (output_path_of (fresh_generator True False 5) sample_scene) 5
        (generate_prompt_hash friendly_world (build_video_prompt sample_scene None)),
      friendly_world\<lparr> files := {output_path_of (fresh_generator True False 5) sample_scene} \<rparr>)"
  unfolding after_first_call_def by (rule first_dry_run_call) simp

lemma output_path_nonempty: "output_path_of g sc \<noteq> []"
  by (simp add: output_path_of_def)

lemma gsv_test_mode_world:
  assumes "dry_run g \<or> simulate g" and "generate_scene_video g w sc img = (r, g', w')"
  shows "api_calls w' = api_calls w \<and> download_calls w' = download_calls w"
proof (cases "int_prints (scene_id sc)")
  case False
  from gsv_no_print[OF False, of g w img] assms(2) show ?thesis by auto
next
  case pr: True
  show ?thesis
  proof (cases "served_from_cache g w sc")
    case True
    from gsv_served[OF pr True, of img] assms(2) show ?thesis by auto
  next
    case ns: False
    show ?thesis
    proof (cases "cache_probe_raises g w sc")
      case True
      from gsv_probe_raises[OF pr True, of img] assms(2) show ?thesis by auto
    next
      case nr: False
      show ?thesis
      proof (cases "session_cost g + 5 \<le> budget_limit g")
        case True
        from gsv_test_mode[OF assms(1) pr ns nr True, of img] assms(2) show ?thesis
          by (auto split: if_splits)
      next
        case False
        with gsv_over_budget[OF ns, of img] assms(2) show ?thesis by auto
      qed
    qed
  qed
qed

lemma attempts_list: "[0 ..< MAX_RETRIES + 1] = [0, 1, 2]"
  by (simp add: MAX_RETRIES_def upt_rec)

lemma retry_step_fail:
  assumes "attempt_fails (api_script w (api_calls w))"
  shows "retry_loop (a # rest) w =
     (if api_script w (api_calls w) = ApiRaises \<and> \<not> a < MAX_RETRIES
      then (None, w\<lparr> api_calls := Suc (api_calls w) \<rparr>)
      else retry_loop rest (w\<lparr> api_calls := Suc (api_calls w) \<rparr>))"
  using assms
  by (cases "api_script w (api_calls w)")
     (auto simp: subscribe_def split: option.splits)

lemma retry_loop_all_fail:
  assumes "\<forall>k < MAX_RETRIES + 1. attempt_fails (api_script w (api_calls w + k))"
  shows "retry_loop [0 ..< MAX_RETRIES + 1] w =
         (None, w\<lparr> api_calls := api_calls w + (MAX_RETRIES + 1) \<rparr>)"
proof -
  have f: "attempt_fails (api_script w (api_calls w))"
    "attempt_fails (api_script w (Suc (api_calls w)))"
    "attempt_fails (api_script w (Suc (Suc (api_calls w))))"
    using assms[rule_format, of 0] assms[rule_format, of 1] assms[rule_format, of 2]
    by (simp_all add: MAX_RETRIES_def)
  have n: "Suc (Suc (Suc (api_calls w))) = api_calls w + 3" by simp
  show ?thesis
    unfolding attempts_list using f
    by (simp add: retry_step_fail MAX_RETRIES_def n del: retry_loop.simps(2))
qed

lemma probe_image_cases:
  "\<not> image_probe_raises w img \<Longrightarrow> probe_image w img = Inr ()"
  "image_probe_raises w img \<Longrightarrow> probe_image w img = Inl OSError"
  by (auto simp: image_probe_raises_def probe_image_def path_exists_def split: option.splits)

lemma call_fal_api_production:
  assumes "\<not> dry_run g" and "\<not> simulate g"
  shows "\<not> image_probe_raises w img \<Longrightarrow>
         call_fal_api g w p img =
           (Inr (fst (retry_loop [0 ..< MAX_RETRIES + 1] w)),
            snd (retry_loop [0 ..< MAX_RETRIES + 1] w))"
    and "image_probe_raises w img \<Longrightarrow> call_fal_api g w p img = (Inl OSError, w)"
  using assms by (simp_all add: call_fal_api_def probe_image_cases split: prod.splits)

lemma generate_uncached_api_none:
  assumes "session_cost g + 5 \<le> budget_limit g" and "call_fal_api g w p img = (Inr None, w1)"
  shows "generate_uncached g w sc img p h = (Inr None, g, w1)"
  unfolding generate_uncached_def estimated_cost_value Let_def
  using assms by (simp add: check_budget_def)

lemma retry_loop_calls_mono:
  "retry_loop xs w = (r, w') \<Longrightarrow> api_calls w \<le> api_calls w'"
proof (induction xs arbitrary: w)
  case Nil
  then show ?case by simp
next
  case (Cons a xs)
  let ?w1 = "w\<lparr> api_calls := Suc (api_calls w) \<rparr>"
  from Cons.prems have "(r, w') = (None, ?w1) \<or> (\<exists>x. (r, w') = (Some x, ?w1))
      \<or> retry_loop xs ?w1 = (r, w')"
    by (auto simp: subscribe_def split: api_outcome.splits option.splits if_splits)
  then show ?case using Cons.IH[of ?w1] by auto
qed

lemma retry_loop_calls_strict:
  assumes "retry_loop (a # xs) w = (r, w')"
  shows "api_calls w < api_calls w'"
proof -
  let ?w1 = "w\<lparr> api_calls := Suc (api_calls w) \<rparr>"
  from assms have "(r, w') = (None, ?w1) \<or> (\<exists>x. (r, w') = (Some x, ?w1))
      \<or> retry_loop xs ?w1 = (r, w')"
    by (auto simp: subscribe_def split: api_outcome.splits option.splits if_splits)
  then show ?thesis using retry_loop_calls_mono[of xs ?w1 r w'] by auto
qed

lemma call_fal_api_production_calls:
  assumes "\<not> dry_run g" "\<not> simulate g" "\<not> image_probe_raises w img"
    and "call_fal_api g w p img = (r, w1)"
  shows "api_calls w < api_calls w1"
proof -
  from assms(4) have "snd (retry_loop (0 # [1, 2]) w) = w1"
    unfolding call_fal_api_production(1)[OF assms(1,2,3)] attempts_list by simp
  then have "retry_loop (0 # [1, 2]) w = (fst (retry_loop (0 # [1, 2]) w), w1)"
    by (metis prod.collapse)
  then show ?thesis by (rule retry_loop_calls_strict)
qed

lemma download_video_calls: "download_video w u p = (b, w') \<Longrightarrow> api_calls w' = api_calls w"
  by (auto simp: download_video_def Let_def split: download_outcome.splits if_splits)

lemma generate_uncached_production_calls:
  assumes "\<not> dry_run g" "\<not> simulate g" "\<not> image_probe_raises w img"
    and "session_cost g + 5 \<le> budget_limit g"
    and "generate_uncached g w sc img p h = (r, g', w')"
  shows "api_calls w < api_calls w'"
proof -
  obtain x w1 where c: "call_fal_api g w p img = (x, w1)" by (cases "call_fal_api g w p img") auto
  from call_fal_api_production_calls[OF assms(1,2,3) c] have lt: "api_calls w < api_calls w1" .
  have b: "check_budget g 5 = Inr ()" using assms(4) by (simp add: check_budget_cases)
  from assms(5) have "api_calls w' = api_calls w1"
    unfolding generate_uncached_def estimated_cost_value Let_def
    using assms(1,2)
    by (auto simp: b c dest: download_video_calls
        split: option.splits sum.splits if_splits prod.splits bool.splits)
  with lt show ?thesis by simp
qed

lemma gsv_Some_cached:
  assumes "generate_scene_video g w sc img = (Inr (Some p), g1, w1)"
  shows "cache g1 (generate_prompt_hash w (build_video_prompt sc None)) = Some p"
    and "int_prints (scene_id sc)"
proof -
  show pr: "int_prints (scene_id sc)"
    using gsv_no_print[of sc g w img] assms by auto
  show "cache g1 (generate_prompt_hash w (build_video_prompt sc None)) = Some p"
  proof (cases "served_from_cache g w sc")
    case True
    from gsv_served[OF pr True, of img] assms show ?thesis by auto
  next
    case False
    with gsv_cases[OF assms] show ?thesis by (auto simp: update_tracking_def)
  qed
qed

lemma gsv_production_success:
  assumes "\<not> dry_run g" "\<not> simulate g" "int_prints (scene_id sc)"
    and "\<not> served_from_cache g w sc" "\<not> cache_probe_raises g w sc"
    and "\<not> image_probe_raises w img"
    and "session_cost g + 5 \<le> budget_limit g"
    and "api_script w (api_calls w) = ApiReturns (Some r)"
    and "video r = Some (VideoDict (Some u))" "u \<noteq> []"
    and "download_script w (download_calls w) = DownloadOk"
  shows "generate_scene_video g w sc img =
     (Inr (Some (output_path_of g sc)),
      update_tracking g w sc (output_path_of g sc) 5
        (generate_prompt_hash w (build_video_prompt sc None)),
      w\<lparr> api_calls := Suc (api_calls w), download_calls := Suc (download_calls w),
         files := insert (output_path_of g sc) (files w) \<rparr>)"
proof -
  have "retry_loop [0, 1, 2] w = (Some r, w\<lparr> api_calls := Suc (api_calls w) \<rparr>)"
    using assms(8,9) by (simp add: subscribe_def)
  then have c: "call_fal_api g w p img = (Inr (Some r), w\<lparr> api_calls := Suc (api_calls w) \<rparr>)"
    for p
    unfolding call_fal_api_production(1)[OF assms(1,2,6)] attempts_list by simp
  have b: "check_budget g 5 = Inr ()" using assms(7) by (simp add: check_budget_cases)
  have "generate_uncached g w sc img p h =
     (Inr (Some (output_path_of g sc)),
      update_tracking g w sc (output_path_of g sc) 5 h,
      w\<lparr> api_calls := Suc (api_calls w), download_calls := Suc (download_calls w),
         files := insert (output_path_of g sc) (files w) \<rparr>)" for p h
    unfolding generate_uncached_def estimated_cost_value Let_def
    using assms(1,2,9,10,11)
    by (simp add: b c get_video_url_def download_video_def update_tracking_def Let_def)
  then show ?thesis
    by (simp add: gsv_of_body body_miss[OF assms(3,4,5)])
qed

lemma after_first_production_call_value:
  "5 \<le> l \<Longrightarrow> after_first_production_call l =
     (Inr (Some (output_path_of (fresh_generator False False l) sample_scene)),
      update_tracking (fresh_generator False False l) friendly_world sample_scene
        (output_path_of (fresh_generator False False l) sample_scene) 5
        (generate_prompt_hash friendly_world (build_video_prompt sample_scene None)),
      friendly_world\<lparr> api_calls := 1, download_calls := 1,
         files := {output_path_of (fresh_generator False False l) sample_scene} \<rparr>)"
  unfolding after_first_production_call_def
  by (subst gsv_production_success[where r = good_response
        and u = "''https://example.com/test_video.mp4''"])
     (simp_all add: not_served_fresh no_probe_raise_fresh sample_ids_print,
      simp_all add: fresh_generator_def friendly_world_def good_response_def
        image_probe_raises_def)

lemma rprint_cases:
  "rich_renders w m \<Longrightarrow> rprint w m = Inr ()"
  "\<not> rich_renders w m \<Longrightarrow> rprint w m = Inl MarkupError"
  by (simp_all add: rprint_def)

lemma videos_loop_exhausted:
  assumes "budget_remaining (get_session_summary g) \<le> 0"
  shows "\<exists>out. videos_loop opts scenes g w results attempted = (out, g, w, attempted) \<and>
           (\<forall>results'. out = Inr results' \<longrightarrow>
              (\<forall>i. results' i = results i \<or> results' i = Some Skipped))"
  using assms
proof (induction scenes arbitrary: results)
  case Nil
  then show ?case by simp
next
  case (Cons sc scenes)
  show ?case
  proof (cases "format_int (scene_id sc)")
    case (Inl e)
    then show ?thesis by simp
  next
    case (Inr shown)
    show ?thesis
    proof (cases "skip_existing opts \<and> get_or_False (existing_videos opts) (scene_id sc)")
      case sk: True
      show ?thesis
      proof (cases "rprint w (SkippedLine (title sc))")
        case (Inl e)
        with Inr sk show ?thesis by simp
      next
        case pr: (Inr u)
        from Cons.IH[OF Cons.prems, of "results(scene_id sc \<mapsto> Skipped)"]
        obtain out where
          r: "videos_loop opts scenes g w (results(scene_id sc \<mapsto> Skipped)) attempted =
                (out, g, w, attempted)"
             "\<forall>results'. out = Inr results' \<longrightarrow>
                (\<forall>i. results' i = (results(scene_id sc \<mapsto> Skipped)) i \<or>
                     results' i = Some Skipped)"
          by blast
        from r(2) have "\<forall>results'. out = Inr results' \<longrightarrow>
                (\<forall>i. results' i = results i \<or> results' i = Some Skipped)"
          by (metis fun_upd_apply)
        with r(1) Inr sk pr show ?thesis by simp
      qed
    next
      case False
      with Cons.prems Inr show ?thesis by auto
    qed
  qed
qed

lemma videos_loop_step:
  assumes "int_prints (scene_id sc)"
    and "\<not> (skip_existing opts \<and> get_or_False (existing_videos opts) (scene_id sc))"
    and "budget_remaining (get_session_summary g) > 0"
    and "generate_scene_video g w sc (reference_image_path opts sc) = (outcome, g', w')"
  shows "videos_loop opts (sc # rest) g w results attempted =
         (case try_report opts w' sc outcome results of
            Inl e \<Rightarrow> (Inl e, g', w', attempted @ [scene_id sc])
          | Inr results' \<Rightarrow>
              videos_loop opts rest g' w' results' (attempted @ [scene_id sc]))"
  using assms by (auto simp: Let_def format_int_def)

lemma videos_loop_continues_after_None:
  assumes "int_prints (scene_id sc)"
    and "\<not> (skip_existing opts \<and> get_or_False (existing_videos opts) (scene_id sc))"
    and "budget_remaining (get_session_summary g) > 0"
    and "generate_scene_video g w sc (reference_image_path opts sc) = (Inr None, g', w')"
    and "rich_renders w' (FailedLine (title sc))"
  shows "videos_loop opts (sc # rest) g w results attempted =
         videos_loop opts rest g' w' (results(scene_id sc \<mapsto> NoVideo))
           (attempted @ [scene_id sc])"
  unfolding videos_loop_step[OF assms(1,2,3,4)]
  using assms(5) by (simp add: try_report_def report_outcome_def rprint_def)

lemma videos_loop_continues_after_Some:
  assumes "int_prints (scene_id sc)"
    and "\<not> (skip_existing opts \<and> get_or_False (existing_videos opts) (scene_id sc))"
    and "budget_remaining (get_session_summary g) > 0"
    and "generate_scene_video g w sc (reference_image_path opts sc) = (Inr (Some p), g', w')"
    and "p \<noteq> []"
    and "rich_renders w' (SavedLine (title sc))"
    and "verbose opts \<longrightarrow> rich_renders w' (SavedToLine p)"
  shows "videos_loop opts (sc # rest) g w results attempted =
         videos_loop opts rest g' w' (results(scene_id sc \<mapsto> Saved p))
           (attempted @ [scene_id sc])"
  unfolding videos_loop_step[OF assms(1,2,3,4)]
  using assms(5,6,7) by (simp add: try_report_def report_outcome_def rprint_def)

lemma videos_loop_raises_after_None:
  assumes "int_prints (scene_id sc)"
    and "\<not> (skip_existing opts \<and> get_or_False (existing_videos opts) (scene_id sc))"
    and "budget_remaining (get_session_summary g) > 0"
    and "generate_scene_video g w sc (reference_image_path opts sc) = (Inr None, g', w')"
    and "\<not> rich_renders w' (FailedLine (title sc))"
    and "\<not> rich_renders w' (ErrorLine (title sc) MarkupError)"
  shows "videos_loop opts (sc # rest) g w results attempted =
         (Inl MarkupError, g', w', attempted @ [scene_id sc])"
  unfolding videos_loop_step[OF assms(1,2,3,4)]
  using assms(5,6)
  by (simp add: try_report_def report_outcome_def loop_handler_def rprint_def)

lemma flaky_call_value:
  "generate_scene_video (fresh_generator False False 10) flaky_world sample_scene None =
     (Inr None, fresh_generator False False 10, flaky_world\<lparr> api_calls := 3 \<rparr>)"
proof -
  have f: "\<forall>k < MAX_RETRIES + 1. attempt_fails (api_script flaky_world (api_calls flaky_world + k))"
    by (simp add: flaky_world_def friendly_world_def)
  have m: "\<not> dry_run (fresh_generator False False 10)" "\<not> simulate (fresh_generator False False 10)"
    by (simp_all add: fresh_generator_def)
  have ip: "\<not> image_probe_raises flaky_world None" by (simp add: image_probe_raises_def)
  have a: "api_calls flaky_world + (MAX_RETRIES + 1) = 3"
    by (simp add: flaky_world_def friendly_world_def MAX_RETRIES_def)
  have c: "call_fal_api (fresh_generator False False 10) flaky_world p None =
      (Inr None, flaky_world\<lparr> api_calls := 3 \<rparr>)" for p
    unfolding call_fal_api_production(1)[OF m ip] retry_loop_all_fail[OF f] a by simp
  have b: "session_cost (fresh_generator False False 10) + 5
      \<le> budget_limit (fresh_generator False False 10)"
    by (simp add: fresh_generator_def)
  show ?thesis
    by (simp add: gsv_of_body
        body_miss[OF sample_ids_print(1) not_served_fresh no_probe_raise_fresh]
        generate_uncached_api_none[OF b c])
qed

lemma plain_options_simps:
  "reference_image_path plain_options sc = None"
  "\<not> (skip_existing plain_options \<and> get_or_False (existing_videos plain_options) i)"
  "\<not> verbose plain_options"
  by (simp_all add: reference_image_path_def plain_options_def)

lemma friendly_renders: "rich_renders friendly_world m"
  by (simp add: friendly_world_def)

lemma md5_friendly: "md5_hexdigest friendly_world = sample_md5"
  by (simp add: friendly_world_def)

lemma prompts_differ:
  "build_video_prompt battle_scene None \<noteq> build_video_prompt sample_scene None"
  by (simp add: build_video_prompt_def battle_scene_def sample_scene_def)

lemma third_prompt: "build_video_prompt third_scene None = build_video_prompt battle_scene None"
  by (simp add: build_video_prompt_def third_scene_def Let_def)

lemma sample_fingerprints:
  "take 12 (sample_md5 (build_video_prompt sample_scene None)) = ''6e085c30e440''"
  "take 12 (sample_md5 (build_video_prompt battle_scene None)) = ''cb94ed7a2085''"
  by (simp_all add: sample_md5_def prompts_differ)

lemma gsv_exception_is_handled:
  "fst (generate_scene_video_body g w sc img) = Inl e \<Longrightarrow>
   fst (generate_scene_video g w sc img) = handler sc"
  by (cases "generate_scene_video_body g w sc img") (simp add: gsv_of_body)

lemma generate_uncached_failures:
  assumes "session_cost g + 5 \<le> budget_limit g"
    and "call_fal_api g w p img = (Inr (Some r), w1)"
  shows "get_video_url r = Inl e \<Longrightarrow> generate_uncached g w sc img p h = (Inl e, g, w1)"
    and "get_video_url r = Inr None \<or> get_video_url r = Inr (Some []) \<Longrightarrow>
         generate_uncached g w sc img p h = (Inr None, g, w1)"
    and "get_video_url r = Inr (Some u) \<Longrightarrow> u \<noteq> [] \<Longrightarrow> \<not> dry_run g \<and> \<not> simulate g \<Longrightarrow>
         download_video w1 u (output_path_of g sc) = (False, w2) \<Longrightarrow>
         generate_uncached g w sc img p h = (Inr None, g, w2)"
    and "get_video_url r = Inr (Some u) \<Longrightarrow> u \<noteq> [] \<Longrightarrow> dry_run g \<or> simulate g \<Longrightarrow>
         write_text w1 (output_path_of g sc) = Inl e \<Longrightarrow>
         generate_uncached g w sc img p h = (Inl e, g, w1)"
  unfolding generate_uncached_def estimated_cost_value Let_def
  using assms by (auto simp: check_budget_def)

lemma generate_uncached_api_raises:
  assumes "session_cost g + 5 \<le> budget_limit g" and "call_fal_api g w p img = (Inl e, w1)"
  shows "generate_uncached g w sc img p h = (Inl e, g, w1)"
  unfolding generate_uncached_def estimated_cost_value Let_def
  using assms by (simp add: check_budget_def)

lemma strict_world_simps:
  "\<not> rich_renders strict_world (FailedLine (title tagged_scene))"
  "\<not> rich_renders strict_world (ErrorLine (title tagged_scene) e)"
  "rich_renders strict_world (FailedLine (title sample_scene))"
  by (simp_all add: strict_world_def tagged_scene_def sample_scene_def)

subsection \<open>Budget invariant\<close>

text \<open>
  Claim C1, as the code has it. For a generator constructed with a budget limit that is
  not negative, after every sequence of \<^verbatim>\<open>generate_scene_video\<close> calls (whatever the
  outside world does between and during the calls) the session cost is at most the limit,
  and the limit is the one fixed at construction. Every request that the cache does not
  answer and whose estimated cost, added to the session cost, exceeds the limit leaves the
  generator and the world as they were, and returns \<^verbatim>\<open>None\<close> whenever the identifier
  of the scene can be printed.
\<close>

theorem budget_never_exceeded:
  assumes "fst (init w0 dry sim limit) = Inr g0" and "0 \<le> limit"
  shows "session_cost (run_session g0 reqs) \<le> limit \<and>
         budget_limit (run_session g0 reqs) = limit \<and>
         (\<not> served_from_cache (run_session g0 reqs) w sc \<and>
          session_cost (run_session g0 reqs) + DEFAULT_DURATION * ESTIMATED_COST_PER_SECOND
            > budget_limit (run_session g0 reqs)
          \<longrightarrow> snd (generate_scene_video (run_session g0 reqs) w sc image_path) =
                  (run_session g0 reqs, w) \<and>
              (int_prints (scene_id sc) \<longrightarrow>
                 generate_scene_video (run_session g0 reqs) w sc image_path =
                   (Inr None, run_session g0 reqs, w)))"
proof -
  from init_Inr[OF assms(1)] have g0: "session_cost g0 = 0" "budget_limit g0 = limit" by simp_all
  with assms(2) have "session_cost g0 \<le> budget_limit g0" by simp
  from run_session_inv[OF this, of reqs]
  have "session_cost (run_session g0 reqs) \<le> limit" "budget_limit (run_session g0 reqs) = limit"
    by (simp_all add: g0)
  then show ?thesis
    by (auto simp: estimated_cost_value gsv_over_budget handler_value)
qed

theorem budget_never_exceeded_witness:
  "fst (init friendly_world True False 10) = Inr (fresh_generator True False 10) \<and>
   (0::real) \<le> 10 \<and>
   session_cost (run_session (fresh_generator True False 10)
      [(friendly_world, sample_scene, None), (friendly_world, sample_scene, None)]) \<le> 10 \<and>
   int_prints (scene_id sample_scene) \<and>
   generate_scene_video
     (run_session (fresh_generator True False 10)
        [(friendly_world, sample_scene, None), (friendly_world, sample_scene, None)])
     friendly_world sample_scene None =
   (Inr None,
    run_session (fresh_generator True False 10)
        [(friendly_world, sample_scene, None), (friendly_world, sample_scene, None)],
    friendly_world)"
proof -
  let ?fresh = "fresh_generator True False 10"
  let ?reqs = "[(friendly_world, sample_scene, None), (friendly_world, sample_scene, None)]"
  let ?after = "run_session ?fresh ?reqs"
  have i: "fst (init friendly_world True False 10) = Inr ?fresh" by (simp add: init_friendly)
  have g1: "generate_scene_video ?fresh friendly_world sample_scene None =
     (Inr (Some (output_path_of ?fresh sample_scene)),
      update_tracking ?fresh friendly_world sample_scene (output_path_of ?fresh sample_scene) 5
        (generate_prompt_hash friendly_world (build_video_prompt sample_scene None)),
      friendly_world\<lparr> files := {output_path_of ?fresh sample_scene} \<rparr>)"
    by (rule first_dry_run_call) simp
  have ns: "\<not> served_from_cache g friendly_world sc" for g sc
    by (simp add: served_from_cache_def friendly_world_def split: option.splits)
  note nr = no_probe_raise[OF friendly_no_raise]
  let ?mid = "update_tracking ?fresh friendly_world sample_scene
        (output_path_of ?fresh sample_scene) 5
        (generate_prompt_hash friendly_world (build_video_prompt sample_scene None))"
  have m: "dry_run ?mid \<or> simulate ?mid" "session_cost ?mid + 5 \<le> budget_limit ?mid"
    "write_ok friendly_world (output_path_of ?mid sample_scene)"
    by (simp_all add: update_tracking_def fresh_generator_def friendly_world_def)
  have g2: "generate_scene_video ?mid friendly_world sample_scene None =
     (Inr (Some (output_path_of ?mid sample_scene)),
      update_tracking ?mid friendly_world sample_scene (output_path_of ?mid sample_scene) 5
        (generate_prompt_hash friendly_world (build_video_prompt sample_scene None)),
      friendly_world\<lparr> files := insert (output_path_of ?mid sample_scene) (files friendly_world) \<rparr>)"
    using gsv_test_mode[OF m(1) sample_ids_print(1) ns nr m(2)] m(3) by simp
  have c: "session_cost ?after = 10"
    by (simp add: g1 g2) (simp add: update_tracking_def fresh_generator_def)
  have b: "budget_limit ?after = 10"
    by (simp add: g1 g2) (simp add: update_tracking_def fresh_generator_def)
  have over: "\<not> served_from_cache ?after friendly_world sample_scene \<and>
      session_cost ?after + DEFAULT_DURATION * ESTIMATED_COST_PER_SECOND > budget_limit ?after"
    unfolding c b estimated_cost_value using ns by simp
  have "session_cost ?after \<le> 10 \<and> budget_limit ?after = 10 \<and>
     (\<not> served_from_cache ?after friendly_world sample_scene \<and>
      session_cost ?after + DEFAULT_DURATION * ESTIMATED_COST_PER_SECOND > budget_limit ?after
      \<longrightarrow> snd (generate_scene_video ?after friendly_world sample_scene None) =
            (?after, friendly_world) \<and>
          (int_prints (scene_id sample_scene) \<longrightarrow>
           generate_scene_video ?after friendly_world sample_scene None =
             (Inr None, ?after, friendly_world)))"
    by (rule budget_never_exceeded[OF i]) simp
  with over sample_ids_print(1) have "session_cost ?after \<le> 10"
    and "generate_scene_video ?after friendly_world sample_scene None =
         (Inr None, ?after, friendly_world)"
    by blast+
  with i sample_ids_print(1) show ?thesis by (intro conjI) (assumption | simp)+
qed

text \<open>
  Claim C1 as the specification states it fails in two places. A generator constructed with
  a negative limit has a session cost of 0 above its limit before any call. And with a limit
  of 5.0, after one generation, a second request for the same scene would bring the cost to
  10.0, yet it is answered from the cache with a path, not with \<^verbatim>\<open>None\<close>: the cache
  lookup comes before the budget check.
\<close>

theorem budget_claim_counterexample:
  "fst (init friendly_world True False (- 1)) = Inr (fresh_generator True False (- 1)) \<and>
   session_cost (run_session (fresh_generator True False (- 1)) [])
     > budget_limit (fresh_generator True False (- 1)) \<and>
   session_cost (fst (snd after_first_call)) + DEFAULT_DURATION * ESTIMATED_COST_PER_SECOND
     > budget_limit (fst (snd after_first_call)) \<and>
   fst (generate_scene_video (fst (snd after_first_call)) (snd (snd after_first_call))
          sample_scene None)
     = Inr (Some (output_path_of (fresh_generator True False 5) sample_scene))"
proof -
  let ?mid = "fst (snd after_first_call)"
  let ?wmid = "snd (snd after_first_call)"
  have c: "cache ?mid (generate_prompt_hash ?wmid (build_video_prompt sample_scene None))
      = Some (output_path_of (fresh_generator True False 5) sample_scene)"
    unfolding after_first_call_value
    by (simp add: update_tracking_def generate_prompt_hash_def)
  have "served_from_cache ?mid ?wmid sample_scene"
    unfolding served_from_cache_def c by (simp add: after_first_call_value)
  from gsv_served[OF sample_ids_print(1) this, of None] c
  have "fst (generate_scene_video ?mid ?wmid sample_scene None)
      = Inr (Some (output_path_of (fresh_generator True False 5) sample_scene))"
    by auto
  moreover have "session_cost ?mid + DEFAULT_DURATION * ESTIMATED_COST_PER_SECOND
      > budget_limit ?mid"
    unfolding after_first_call_value estimated_cost_value
    by (simp add: update_tracking_def fresh_generator_def)
  moreover have "session_cost (run_session (fresh_generator True False (- 1)) [])
     > budget_limit (fresh_generator True False (- 1))"
    by (simp add: fresh_generator_def)
  ultimately show ?thesis by (simp add: init_friendly)
qed

subsection \<open>Prompt and fingerprint\<close>

text \<open>
  Claim C4. The prompt built for a scene, and with it the fingerprint, do not depend on the
  reference-image path passed along: two calls for the same scene give the same prompt and
  the same fingerprint whatever the two paths are. The fingerprint is the first 12
  characters of the digest.
\<close>

theorem prompt_independent_of_image:
  "build_video_prompt sc image_path1 = build_video_prompt sc image_path2 \<and>
   generate_prompt_hash w (build_video_prompt sc image_path1) =
   generate_prompt_hash w (build_video_prompt sc image_path2) \<and>
   length (generate_prompt_hash w (build_video_prompt sc image_path1)) =
     min 12 (length (md5_hexdigest w (build_video_prompt sc image_path1)))"
  by (simp add: build_video_prompt_def generate_prompt_hash_def min_def)

subsection \<open>Dry-run generation\<close>

text \<open>
  Claim C5. A generator freshly constructed in dry-run mode with a budget of 10.0, asked for
  one scene whose identifier can be printed, in a world where the placeholder file can be
  written, returns the (non-empty) output path of the scene, has a session cost of 5.0
  afterwards and exactly one generation record; the placeholder file exists.
\<close>

theorem dry_run_scenario:
  assumes "fst (init w0 True sim 10) = Inr g"
    and "int_prints (scene_id sc)"
    and "write_ok w (output_path_of g sc)"
    and "generate_scene_video g w sc image_path = (r, g', w')"
  shows "r = Inr (Some (output_path_of g sc)) \<and> output_path_of g sc \<noteq> [] \<and>
         session_cost g' = 5 \<and> length (generated_videos g') = 1 \<and>
         output_path_of g sc \<in> files w'"
proof -
  from init_Inr[OF assms(1)] have g: "dry_run g" "session_cost g = 0" "budget_limit g = 10"
    "generated_videos g = []" "cache g = Map.empty" by simp_all
  have ns: "\<not> served_from_cache g w sc" by (simp add: served_from_cache_def g)
  have nr: "\<not> cache_probe_raises g w sc" by (simp add: cache_probe_raises_def g)
  have "generate_scene_video g w sc image_path =
     (Inr (Some (output_path_of g sc)),
      update_tracking g w sc (output_path_of g sc) 5
        (generate_prompt_hash w (build_video_prompt sc None)),
      w\<lparr> files := insert (output_path_of g sc) (files w) \<rparr>)"
    using gsv_test_mode[of g sc w image_path] ns nr g assms(2,3) by simp
  with assms(4) show ?thesis
    by (auto simp: update_tracking_def g output_path_nonempty)
qed

theorem dry_run_scenario_witness:
  "fst (init friendly_world True False 10) = Inr (fresh_generator True False 10) \<and>
   int_prints (scene_id sample_scene) \<and>
   write_ok friendly_world (output_path_of (fresh_generator True False 10) sample_scene) \<and>
   fst (generate_scene_video (fresh_generator True False 10) friendly_world sample_scene None)
     = Inr (Some (output_path_of (fresh_generator True False 10) sample_scene)) \<and>
   session_cost (fst (snd (generate_scene_video (fresh_generator True False 10)
       friendly_world sample_scene None))) = 5 \<and>
   length (generated_videos (fst (snd (generate_scene_video (fresh_generator True False 10)
       friendly_world sample_scene None)))) = 1"
proof -
  have i: "fst (init friendly_world True False 10) = Inr (fresh_generator True False 10)"
    by (simp add: init_friendly)
  have wr: "write_ok friendly_world (output_path_of (fresh_generator True False 10) sample_scene)"
    by (simp add: friendly_world_def)
  obtain r g' w' where c: "generate_scene_video (fresh_generator True False 10) friendly_world
      sample_scene None = (r, g', w')"
    by (cases "generate_scene_video (fresh_generator True False 10) friendly_world
      sample_scene None") auto
  from dry_run_scenario[OF i sample_ids_print(1) wr c] i wr sample_ids_print(1)
  show ?thesis by (simp add: c)
qed

text \<open>
  Claim C6 as the specification states it fails: after a successful dry-run generation the
  session cost is not what it was before.
\<close>

theorem dry_run_cost_counterexample:
  "dry_run (fresh_generator True False 5) \<and>
   fst after_first_call
     = Inr (Some (output_path_of (fresh_generator True False 5) sample_scene)) \<and>
   session_cost (fst (snd after_first_call)) \<noteq> session_cost (fresh_generator True False 5)"
  by (simp add: after_first_call_value update_tracking_def fresh_generator_def)

text \<open>
  Claim C6, as the code has it. A successful dry-run generation makes no call to the
  service and no download, and it charges the estimated cost (duration times rate, 5.0) to
  the session unless the request was answered from the cache, in which case nothing is
  charged.
\<close>

theorem dry_run_charges_estimate:
  assumes "dry_run g" and "generate_scene_video g w sc image_path = (Inr (Some p), g', w')"
  shows "api_calls w' = api_calls w \<and> download_calls w' = download_calls w \<and>
         session_cost g' =
           (if served_from_cache g w sc then session_cost g
            else session_cost g + DEFAULT_DURATION * ESTIMATED_COST_PER_SECOND)"
proof -
  from gsv_test_mode_world[OF _ assms(2)] assms(1)
  have "api_calls w' = api_calls w \<and> download_calls w' = download_calls w" by simp
  moreover from gsv_cases[OF assms(2)]
  have "session_cost g' = (if served_from_cache g w sc then session_cost g else session_cost g + 5)"
    by (auto simp: update_tracking_def)
  ultimately show ?thesis by (simp add: estimated_cost_value)
qed

theorem dry_run_charges_estimate_witness:
  "dry_run (fresh_generator True False 5) \<and>
   after_first_call = (fst after_first_call, fst (snd after_first_call), snd (snd after_first_call)) \<and>
   fst after_first_call
     = Inr (Some (output_path_of (fresh_generator True False 5) sample_scene)) \<and>
   api_calls (snd (snd after_first_call)) = api_calls friendly_world \<and>
   session_cost (fst (snd after_first_call)) = session_cost (fresh_generator True False 5) + 5"
proof -
  have d: "dry_run (fresh_generator True False 5)" by (simp add: fresh_generator_def)
  have c: "generate_scene_video (fresh_generator True False 5) friendly_world sample_scene None
      = (Inr (Some (output_path_of (fresh_generator True False 5) sample_scene)),
         fst (snd after_first_call), snd (snd after_first_call))"
    unfolding after_first_call_def[symmetric] by (simp add: after_first_call_value)
  from dry_run_charges_estimate[OF d c] not_served_fresh[of True False 5 friendly_world sample_scene]
  show ?thesis using d by (simp add: estimated_cost_value after_first_call_value)
qed

subsection \<open>Failure atomicity\<close>

text \<open>
  Claim C10. Whenever \<^verbatim>\<open>generate_scene_video\<close> returns \<^verbatim>\<open>None\<close>, and also when
  an exception leaves it, the generator (session cost, record list, cache and all) is
  exactly as before the call. When the generator has changed, the call returned a path
  whose file exists, and the change is the one tracking update: cost added, one record
  appended, one cache entry stored.
\<close>

theorem failure_leaves_state:
  assumes "generate_scene_video g w sc image_path = (r, g', w')"
  shows "(r = Inr None \<longrightarrow> g' = g) \<and>
         ((\<exists>e. r = Inl e) \<longrightarrow> g' = g) \<and>
         (g' \<noteq> g \<longrightarrow> (\<exists>p. r = Inr (Some p) \<and> p \<in> files w' \<and>
             g' = update_tracking g w' sc p (DEFAULT_DURATION * ESTIMATED_COST_PER_SECOND)
                    (generate_prompt_hash w (build_video_prompt sc image_path))))"
  using gsv_cases[OF assms]
  by (auto simp: estimated_cost_value build_video_prompt_image[of sc image_path])

theorem failure_leaves_state_witness:
  "generate_scene_video (fresh_generator True False 1) friendly_world sample_scene None =
     (Inr None, fresh_generator True False 1, friendly_world) \<and>
   fst (snd after_first_call) \<noteq> fresh_generator True False 5 \<and>
   fst after_first_call
     = Inr (Some (output_path_of (fresh_generator True False 5) sample_scene)) \<and>
   output_path_of (fresh_generator True False 5) sample_scene \<in> files (snd (snd after_first_call))"
proof -
  obtain r g' w' where c: "generate_scene_video (fresh_generator True False 1) friendly_world
      sample_scene None = (r, g', w')"
    by (cases "generate_scene_video (fresh_generator True False 1) friendly_world
      sample_scene None") auto
  have "generate_scene_video (fresh_generator True False 1) friendly_world sample_scene None =
     (handler sample_scene, fresh_generator True False 1, friendly_world)"
    by (rule gsv_over_budget) (simp_all add: not_served_fresh, simp add: fresh_generator_def)
  with c have r: "r = Inr None" "w' = friendly_world"
    by (simp_all add: handler_value sample_ids_print)
  from failure_leaves_state[OF c] r have 1: "g' = fresh_generator True False 1" by blast
  have d: "generate_scene_video (fresh_generator True False 5) friendly_world sample_scene None
      = (fst after_first_call, fst (snd after_first_call), snd (snd after_first_call))"
    unfolding after_first_call_def[symmetric] by simp
  have ne: "fst (snd after_first_call) \<noteq> fresh_generator True False 5"
  proof
    assume "fst (snd after_first_call) = fresh_generator True False 5"
    then have "session_cost (fst (snd after_first_call)) = session_cost (fresh_generator True False 5)"
      by simp
    then show False
      by (simp add: after_first_call_value update_tracking_def fresh_generator_def)
  qed
  from failure_leaves_state[OF d] ne
  obtain p where "fst after_first_call = Inr (Some p)" "p \<in> files (snd (snd after_first_call))"
    by blast
  with ne c r 1 show ?thesis by (simp add: after_first_call_value)
qed

subsection \<open>Retry bound\<close>

text \<open>
  Claim C3. In production mode (neither dry-run nor simulate), for a request whose
  reference image, if there is one, can be probed, when each of the next
  \<^verbatim>\<open>MAX_RETRIES + 1\<close> = 3 calls of the service fails (it raises, returns nothing, or
  returns a response without the video field), \<^verbatim>\<open>_call_fal_api\<close> makes exactly these 3
  calls and returns \<^verbatim>\<open>None\<close>; a request that reaches the service (identifier printed,
  cache missed, within budget) then returns \<^verbatim>\<open>None\<close> from
  \<^verbatim>\<open>generate_scene_video\<close>, the generator unchanged and the call counter advanced by
  exactly 3.
\<close>

theorem retry_bound:
  assumes "\<not> dry_run g" and "\<not> simulate g"
    and "\<not> image_probe_raises w image_path"
    and "\<forall>k < MAX_RETRIES + 1. attempt_fails (api_script w (api_calls w + k))"
  shows "MAX_RETRIES + 1 = 3 \<and>
         call_fal_api g w prompt image_path =
           (Inr None, w\<lparr> api_calls := api_calls w + (MAX_RETRIES + 1) \<rparr>) \<and>
         (int_prints (scene_id sc) \<and>
          \<not> served_from_cache g w sc \<and> \<not> cache_probe_raises g w sc \<and>
          session_cost g + DEFAULT_DURATION * ESTIMATED_COST_PER_SECOND \<le> budget_limit g
          \<longrightarrow> generate_scene_video g w sc image_path =
                (Inr None, g, w\<lparr> api_calls := api_calls w + (MAX_RETRIES + 1) \<rparr>))"
proof -
  have c: "call_fal_api g w pr image_path =
           (Inr None, w\<lparr> api_calls := api_calls w + (MAX_RETRIES + 1) \<rparr>)" for pr
    unfolding call_fal_api_production(1)[OF assms(1,2,3)] retry_loop_all_fail[OF assms(4)]
    by simp
  have "generate_scene_video g w sc image_path =
                (Inr None, g, w\<lparr> api_calls := api_calls w + (MAX_RETRIES + 1) \<rparr>)"
    if "int_prints (scene_id sc)" "\<not> served_from_cache g w sc" "\<not> cache_probe_raises g w sc"
      "session_cost g + 5 \<le> budget_limit g"
    using that by (simp add: gsv_of_body body_miss generate_uncached_api_none[OF _ c])
  with c show ?thesis by (simp add: estimated_cost_value MAX_RETRIES_def)
qed

theorem retry_bound_witness:
  "\<not> dry_run (fresh_generator False False 10) \<and> \<not> simulate (fresh_generator False False 10) \<and>
   \<not> image_probe_raises flaky_world (Some ''/app/assets/scene_1.png'') \<and>
   attempt_fails (api_script flaky_world 0) \<and>
   attempt_fails (api_script flaky_world 1) \<and>
   attempt_fails (api_script flaky_world 2) \<and>
   int_prints (scene_id sample_scene) \<and>
   generate_scene_video (fresh_generator False False 10) flaky_world sample_scene
       (Some ''/app/assets/scene_1.png'') =
     (Inr None, fresh_generator False False 10, flaky_world\<lparr> api_calls := 3 \<rparr>)"
proof -
  have m: "\<not> dry_run (fresh_generator False False 10)" "\<not> simulate (fresh_generator False False 10)"
    by (simp_all add: fresh_generator_def)
  have ip: "\<not> image_probe_raises flaky_world (Some ''/app/assets/scene_1.png'')"
    by (simp add: image_probe_raises_def flaky_world_def friendly_world_def)
  have f: "\<forall>k < MAX_RETRIES + 1. attempt_fails (api_script flaky_world (api_calls flaky_world + k))"
    by (simp add: flaky_world_def friendly_world_def)
  have b: "session_cost (fresh_generator False False 10)
      + DEFAULT_DURATION * ESTIMATED_COST_PER_SECOND \<le> budget_limit (fresh_generator False False 10)"
    by (simp add: estimated_cost_value fresh_generator_def)
  have a: "api_calls flaky_world + (MAX_RETRIES + 1) = 3"
    by (simp add: flaky_world_def friendly_world_def MAX_RETRIES_def)
  from retry_bound[OF m ip f, where prompt = "build_video_prompt sample_scene None"
      and sc = sample_scene]
    not_served_fresh[of False False 10 flaky_world sample_scene]
    no_probe_raise_fresh[of False False 10 flaky_world sample_scene] b sample_ids_print(1)
  have "generate_scene_video (fresh_generator False False 10) flaky_world sample_scene
       (Some ''/app/assets/scene_1.png'') =
     (Inr None, fresh_generator False False 10,
      flaky_world\<lparr> api_calls := api_calls flaky_world + (MAX_RETRIES + 1) \<rparr>)"
    by blast
  moreover have "attempt_fails (api_script flaky_world 0)"
    "attempt_fails (api_script flaky_world 1)" "attempt_fails (api_script flaky_world 2)"
    by (simp_all add: flaky_world_def friendly_world_def)
  ultimately show ?thesis using m ip sample_ids_print(1) by (simp only: a) simp
qed

subsection \<open>Cache lookup\<close>

text \<open>
  Claim C2 as the specification states it fails in its second half. In production mode with
  a budget of 5.0, a scene is generated, its file is deleted, and the scene is requested
  again: the stale cache entry is passed over, but the budget check that follows fails
  (5.0 + 5.0 > 5.0), so the call returns \<^verbatim>\<open>None\<close> and no call to the service is
  made.
\<close>

theorem stale_cache_counterexample:
  "after_first_production_call 5 =
     (Inr (Some (output_path_of (fresh_generator False False 5) sample_scene)),
      fst (snd (after_first_production_call 5)), snd (snd (after_first_production_call 5))) \<and>
   output_path_of (fresh_generator False False 5) sample_scene \<notin> files (stale_world 5) \<and>
   generate_scene_video (fst (snd (after_first_production_call 5))) (stale_world 5)
       sample_scene None
     = (Inr None, fst (snd (after_first_production_call 5)), stale_world 5) \<and>
   api_calls (snd (snd (generate_scene_video (fst (snd (after_first_production_call 5)))
       (stale_world 5) sample_scene None))) = api_calls (stale_world 5)"
proof -
  have v: "after_first_production_call 5 =
     (Inr (Some (output_path_of (fresh_generator False False 5) sample_scene)),
      fst (snd (after_first_production_call 5)), snd (snd (after_first_production_call 5)))"
    by (simp add: after_first_production_call_value)
  have f: "files (stale_world 5) = {}" by (simp add: stale_world_def)
  have ns: "\<not> served_from_cache (fst (snd (after_first_production_call 5))) (stale_world 5)
      sample_scene"
    by (simp add: served_from_cache_def f split: option.splits)
  have ob: "session_cost (fst (snd (after_first_production_call 5))) + 5
      > budget_limit (fst (snd (after_first_production_call 5)))"
    by (simp add: after_first_production_call_value update_tracking_def fresh_generator_def)
  from gsv_over_budget[OF ns ob, of None] v f show ?thesis
    by (simp add: handler_value sample_ids_print)
qed

text \<open>
  Claim C2, as the code has it. After a call that returned a path for a scene, a second
  request for the same scene (with any reference image)
  \<^item> returns the same path, with the generator and the world untouched (no call to the
    service, no cost, no new record), when the file is still there;
  \<^item> is handled exactly as an uncached request when the file is gone and its path can
    still be probed: it goes on to the budget check; over budget it returns \<^verbatim>\<open>None\<close>
    with nothing changed, and within budget, in production mode and with a reference image
    that can be probed (or none), it makes at least one new call to the service.
\<close>

theorem cache_hit_needs_file:
  assumes "generate_scene_video g w sc image_path = (Inr (Some p), g1, w1)"
    and "md5_hexdigest w2 = md5_hexdigest w"
    and "generate_scene_video g1 w2 sc image_path2 = (r, g2, w3)"
  shows "(p \<in> files w2 \<longrightarrow> r = Inr (Some p) \<and> g2 = g1 \<and> w3 = w2) \<and>
         (p \<notin> files w2 \<and> \<not> exists_raises w2 p \<longrightarrow>
            generate_scene_video_body g1 w2 sc image_path2 =
              generate_uncached g1 w2 sc image_path2 (build_video_prompt sc image_path2)
                (generate_prompt_hash w2 (build_video_prompt sc image_path2)) \<and>
            (session_cost g1 + DEFAULT_DURATION * ESTIMATED_COST_PER_SECOND > budget_limit g1
               \<longrightarrow> r = Inr None \<and> g2 = g1 \<and> w3 = w2) \<and>
            (session_cost g1 + DEFAULT_DURATION * ESTIMATED_COST_PER_SECOND \<le> budget_limit g1
               \<and> \<not> dry_run g1 \<and> \<not> simulate g1 \<and> \<not> image_probe_raises w2 image_path2
               \<longrightarrow> api_calls w2 < api_calls w3))"
proof -
  have h: "generate_prompt_hash w2 pr = generate_prompt_hash w pr" for pr
    by (simp add: generate_prompt_hash_def assms(2))
  note pr = gsv_Some_cached(2)[OF assms(1)]
  from gsv_Some_cached(1)[OF assms(1)]
  have c: "cache g1 (generate_prompt_hash w2 (build_video_prompt sc None)) = Some p"
    by (simp add: h)
  have s: "served_from_cache g1 w2 sc \<longleftrightarrow> p \<in> files w2"
    by (simp add: served_from_cache_def c)
  have e: "cache_probe_raises g1 w2 sc \<longleftrightarrow> p \<notin> files w2 \<and> exists_raises w2 p"
    by (simp add: cache_probe_raises_def c)
  show ?thesis
  proof (cases "p \<in> files w2")
    case True
    with s gsv_served[OF pr, of g1 w2 image_path2] assms(3) c show ?thesis by auto
  next
    case False
    with s have ns: "\<not> served_from_cache g1 w2 sc" by simp
    show ?thesis
    proof (cases "exists_raises w2 p")
      case True
      with False show ?thesis by simp
    next
      case nx: False
      with e have nr: "\<not> cache_probe_raises g1 w2 sc" by simp
      note b = body_miss[OF pr ns nr, of image_path2]
      have 1: "generate_scene_video_body g1 w2 sc image_path2 =
                generate_uncached g1 w2 sc image_path2 (build_video_prompt sc image_path2)
                  (generate_prompt_hash w2 (build_video_prompt sc image_path2))"
        by (simp add: b build_video_prompt_image[of sc image_path2])
      have 2: "r = Inr None \<and> g2 = g1 \<and> w3 = w2" if "session_cost g1 + 5 > budget_limit g1"
        using gsv_over_budget[OF ns that, of image_path2] assms(3) pr
        by (simp add: handler_value)
      have 3: "api_calls w2 < api_calls w3"
        if "session_cost g1 + 5 \<le> budget_limit g1" "\<not> dry_run g1" "\<not> simulate g1"
          "\<not> image_probe_raises w2 image_path2"
      proof -
        obtain rb where "generate_uncached g1 w2 sc image_path2 (build_video_prompt sc None)
                  (generate_prompt_hash w2 (build_video_prompt sc None)) = (rb, g2, w3)"
          using assms(3) by (auto simp: gsv_of_body b split: prod.splits)
        from generate_uncached_production_calls[OF that(2,3,4,1) this] show ?thesis .
      qed
      from False 1 2 3 show ?thesis by (simp add: estimated_cost_value)
    qed
  qed
qed

theorem cache_hit_needs_file_witness:
  "after_first_production_call 10 =
     (Inr (Some (output_path_of (fresh_generator False False 10) sample_scene)),
      fst (snd (after_first_production_call 10)), snd (snd (after_first_production_call 10))) \<and>
   output_path_of (fresh_generator False False 10) sample_scene
     \<in> files (snd (snd (after_first_production_call 10))) \<and>
   generate_scene_video (fst (snd (after_first_production_call 10)))
       (snd (snd (after_first_production_call 10))) sample_scene None
     = (Inr (Some (output_path_of (fresh_generator False False 10) sample_scene)),
        fst (snd (after_first_production_call 10)), snd (snd (after_first_production_call 10))) \<and>
   output_path_of (fresh_generator False False 10) sample_scene \<notin> files (stale_world 10) \<and>
   api_calls (stale_world 10)
     < api_calls (snd (snd (generate_scene_video (fst (snd (after_first_production_call 10)))
         (stale_world 10) sample_scene None)))"
proof -
  let ?p = "output_path_of (fresh_generator False False 10) sample_scene"
  let ?g1 = "fst (snd (after_first_production_call 10))"
  let ?w1 = "snd (snd (after_first_production_call 10))"
  have v: "generate_scene_video (fresh_generator False False 10) friendly_world sample_scene None
      = (Inr (Some ?p), ?g1, ?w1)"
    unfolding after_first_production_call_def[symmetric]
    by (simp add: after_first_production_call_value)
  have inp: "?p \<in> files ?w1" by (simp add: after_first_production_call_value)
  have notin: "?p \<notin> files (stale_world 10)" by (simp add: stale_world_def)
  have nx: "\<not> exists_raises (stale_world 10) ?p"
    by (simp add: stale_world_def after_first_production_call_value friendly_no_raise)
  have ip: "\<not> image_probe_raises (stale_world 10) None"
    by (simp add: image_probe_raises_def)
  have d1: "md5_hexdigest ?w1 = md5_hexdigest friendly_world"
    by (simp add: after_first_production_call_value)
  have d2: "md5_hexdigest (stale_world 10) = md5_hexdigest friendly_world"
    by (simp add: stale_world_def after_first_production_call_value)
  have m: "\<not> dry_run ?g1" "\<not> simulate ?g1"
    "session_cost ?g1 + DEFAULT_DURATION * ESTIMATED_COST_PER_SECOND \<le> budget_limit ?g1"
    by (simp_all add: after_first_production_call_value update_tracking_def fresh_generator_def
        estimated_cost_value)
  obtain r g2 w3 where a: "generate_scene_video ?g1 ?w1 sample_scene None = (r, g2, w3)"
    by (cases "generate_scene_video ?g1 ?w1 sample_scene None") auto
  obtain r' g2' w3' where b:
    "generate_scene_video ?g1 (stale_world 10) sample_scene None = (r', g2', w3')"
    by (cases "generate_scene_video ?g1 (stale_world 10) sample_scene None") auto
  from cache_hit_needs_file[OF v d1 a] inp
  have 1: "r = Inr (Some ?p)" "g2 = ?g1" "w3 = ?w1" by blast+
  from cache_hit_needs_file[OF v d2 b] notin nx ip m
  have 2: "api_calls (stale_world 10) < api_calls w3'" by blast
  have v': "after_first_production_call 10 = (Inr (Some ?p), ?g1, ?w1)"
    by (simp add: after_first_production_call_value)
  have 3: "generate_scene_video ?g1 ?w1 sample_scene None = (Inr (Some ?p), ?g1, ?w1)"
    using a 1 by simp
  have 4: "api_calls (stale_world 10)
     < api_calls (snd (snd (generate_scene_video ?g1 (stale_world 10) sample_scene None)))"
    using b 2 by simp
  from v' inp 3 notin 4 show ?thesis by (intro conjI)
qed

subsection \<open>Batch processing\<close>

text \<open>
  Claim C7 as the specification states it fails. With a budget of 7.0 and three scenes, the
  first scene is generated and leaves 2.0, which pays for no further clip; the loop's test
  is on a remainder of zero or less, so the second and the third scene are still handed to
  \<^verbatim>\<open>generate_scene_video\<close>, each returning \<^verbatim>\<open>None\<close>, and the loop runs to its
  end.
\<close>

theorem insufficient_budget_counterexample:
  "budget_limit (fst (snd (generate_scene_video (fresh_generator True False 7) friendly_world
       sample_scene None)))
     < session_cost (fst (snd (generate_scene_video (fresh_generator True False 7)
         friendly_world sample_scene None)))
       + DEFAULT_DURATION * ESTIMATED_COST_PER_SECOND \<and>
   videos_loop plain_options [sample_scene, battle_scene, third_scene]
      (fresh_generator True False 7) friendly_world Map.empty [] =
   (Inr [1 \<mapsto> Saved (output_path_of (fresh_generator True False 7) sample_scene),
         2 \<mapsto> NoVideo, 3 \<mapsto> NoVideo],
    fst (snd (generate_scene_video (fresh_generator True False 7) friendly_world
       sample_scene None)),
    snd (snd (generate_scene_video (fresh_generator True False 7) friendly_world
       sample_scene None)),
    [1, 2, 3])"
proof -
  let ?fresh = "fresh_generator True False 7"
  let ?p = "output_path_of ?fresh sample_scene"
  let ?g1 = "update_tracking ?fresh friendly_world sample_scene ?p 5
        (generate_prompt_hash friendly_world (build_video_prompt sample_scene None))"
  let ?w1 = "friendly_world\<lparr> files := {?p} \<rparr>"
  have c1: "generate_scene_video ?fresh friendly_world sample_scene img = (Inr (Some ?p), ?g1, ?w1)"
    for img
    by (rule first_dry_run_call) simp
  have pos: "0 < budget_remaining (get_session_summary ?fresh)"
    by (simp add: get_session_summary_def fresh_generator_def)
  have pos1: "0 < budget_remaining (get_session_summary ?g1)"
    by (simp add: get_session_summary_def update_tracking_def fresh_generator_def)
  have short: "budget_limit ?g1 < session_cost ?g1 + 5"
    by (simp add: update_tracking_def fresh_generator_def)
  have r1: "rich_renders ?w1 m" for m by (simp add: friendly_renders)
  have ns2: "\<not> served_from_cache ?g1 ?w1 battle_scene"
    by (simp add: served_from_cache_def update_tracking_def generate_prompt_hash_def
        md5_friendly sample_fingerprints fresh_generator_def)
  have ns3: "\<not> served_from_cache ?g1 ?w1 third_scene"
    by (simp add: served_from_cache_def update_tracking_def generate_prompt_hash_def
        md5_friendly sample_fingerprints third_prompt fresh_generator_def)
  have c2: "generate_scene_video ?g1 ?w1 battle_scene img = (Inr None, ?g1, ?w1)" for img
    using gsv_over_budget[OF ns2 short, of img] by (simp add: handler_value sample_ids_print)
  have c3: "generate_scene_video ?g1 ?w1 third_scene img = (Inr None, ?g1, ?w1)" for img
    using gsv_over_budget[OF ns3 short, of img] by (simp add: handler_value sample_ids_print)
  have step1: "videos_loop plain_options (sample_scene # [battle_scene, third_scene])
      ?fresh friendly_world Map.empty [] =
     videos_loop plain_options [battle_scene, third_scene] ?g1 ?w1
       [scene_id sample_scene \<mapsto> Saved ?p] ([] @ [scene_id sample_scene])"
    by (rule videos_loop_continues_after_Some[OF sample_ids_print(1) plain_options_simps(2)
          pos c1 output_path_nonempty r1]) (simp add: plain_options_simps)
  have step2: "videos_loop plain_options (battle_scene # [third_scene]) ?g1 ?w1 res att =
     videos_loop plain_options [third_scene] ?g1 ?w1
       (res(scene_id battle_scene \<mapsto> NoVideo)) (att @ [scene_id battle_scene])" for res att
    by (rule videos_loop_continues_after_None[OF sample_ids_print(3) plain_options_simps(2)
          pos1 c2 r1])
  have step3: "videos_loop plain_options (third_scene # []) ?g1 ?w1 res att =
     videos_loop plain_options [] ?g1 ?w1
       (res(scene_id third_scene \<mapsto> NoVideo)) (att @ [scene_id third_scene])" for res att
    by (rule videos_loop_continues_after_None[OF sample_ids_print(4) plain_options_simps(2)
          pos1 c3 r1])
  have ids: "scene_id sample_scene = 1" "scene_id battle_scene = 2" "scene_id third_scene = 3"
    by (simp_all add: sample_scene_def battle_scene_def third_scene_def)
  have loop: "videos_loop plain_options [sample_scene, battle_scene, third_scene]
      ?fresh friendly_world Map.empty [] =
     (Inr [1 \<mapsto> Saved ?p, 2 \<mapsto> NoVideo, 3 \<mapsto> NoVideo], ?g1, ?w1, [1, 2, 3])"
    unfolding step1 step2 step3 ids by simp
  have "budget_limit ?g1 < session_cost ?g1 + DEFAULT_DURATION * ESTIMATED_COST_PER_SECOND"
    using short by (simp add: estimated_cost_value)
  with loop show ?thesis by (simp add: c1)
qed

text \<open>
  Claim C7, as the code has it. The loop of \<^verbatim>\<open>generate_videos\<close> stops generating
  once the remaining budget is zero or less: from such a state \<^verbatim>\<open>generate_scene_video\<close> is called for none of the
  remaining scenes, the generator, the world and the list of attempted scenes come back
  unchanged, and the only entries written are "skipped" marks. A scene whose generation
  returns \<^verbatim>\<open>None\<close> while budget remains does not stop the loop, provided its line can
  be printed; in particular, while the remainder is positive but smaller than the cost of
  one clip, every scene that the cache does not answer is still attempted, fails, and the
  loop goes on with the next scene.
\<close>

theorem budget_exhaustion_halts_batch:
  "(budget_remaining (get_session_summary g) \<le> 0 \<longrightarrow>
      (\<exists>out. videos_loop opts scenes g w results attempted = (out, g, w, attempted) \<and>
         (\<forall>results'. out = Inr results' \<longrightarrow>
            (\<forall>i. results' i = results i \<or> results' i = Some Skipped)))) \<and>
   (int_prints (scene_id sc) \<and>
    \<not> (skip_existing opts \<and> get_or_False (existing_videos opts) (scene_id sc)) \<and>
    budget_remaining (get_session_summary g) > 0 \<and>
    generate_scene_video g w sc (reference_image_path opts sc) = (Inr None, g', w') \<and>
    rich_renders w' (FailedLine (title sc)) \<longrightarrow>
      videos_loop opts (sc # rest) g w results attempted =
      videos_loop opts rest g' w' (results(scene_id sc \<mapsto> NoVideo))
        (attempted @ [scene_id sc])) \<and>
   (int_prints (scene_id sc) \<and>
    \<not> (skip_existing opts \<and> get_or_False (existing_videos opts) (scene_id sc)) \<and>
    budget_remaining (get_session_summary g) > 0 \<and>
    budget_limit g < session_cost g + DEFAULT_DURATION * ESTIMATED_COST_PER_SECOND \<and>
    \<not> served_from_cache g w sc \<and>
    rich_renders w (FailedLine (title sc)) \<longrightarrow>
      videos_loop opts (sc # rest) g w results attempted =
      videos_loop opts rest g w (results(scene_id sc \<mapsto> NoVideo))
        (attempted @ [scene_id sc]))"
proof -
  have 3: "videos_loop opts (sc # rest) g w results attempted =
      videos_loop opts rest g w (results(scene_id sc \<mapsto> NoVideo)) (attempted @ [scene_id sc])"
    if "int_prints (scene_id sc)"
      "\<not> (skip_existing opts \<and> get_or_False (existing_videos opts) (scene_id sc))"
      "budget_remaining (get_session_summary g) > 0"
      "budget_limit g < session_cost g + 5" "\<not> served_from_cache g w sc"
      "rich_renders w (FailedLine (title sc))"
  proof -
    have "generate_scene_video g w sc (reference_image_path opts sc) = (Inr None, g, w)"
      using gsv_over_budget[OF that(5,4)] that(1) by (simp add: handler_value)
    from videos_loop_continues_after_None[OF that(1,2,3) this that(6)] show ?thesis .
  qed
  show ?thesis
    using videos_loop_exhausted[of g opts scenes w results attempted]
      videos_loop_continues_after_None[of sc opts g w g' w' rest results attempted] 3
    unfolding estimated_cost_value by blast
qed

theorem budget_exhaustion_halts_batch_witness:
  "budget_remaining (get_session_summary (fst (snd after_first_call))) \<le> 0 \<and>
   snd (snd (snd (videos_loop plain_options [sample_scene, second_scene]
      (fresh_generator True False 5) friendly_world Map.empty []))) = [1] \<and>
   0 < budget_remaining (get_session_summary (fresh_generator False False 10)) \<and>
   generate_scene_video (fresh_generator False False 10) flaky_world sample_scene
       (reference_image_path plain_options sample_scene)
     = (Inr None, fresh_generator False False 10, flaky_world\<lparr> api_calls := 3 \<rparr>) \<and>
   videos_loop plain_options [sample_scene, second_scene]
      (fresh_generator False False 10) flaky_world Map.empty [] =
   videos_loop plain_options [second_scene]
      (fresh_generator False False 10) (flaky_world\<lparr> api_calls := 3 \<rparr>)
      [1 \<mapsto> NoVideo] [1] \<and>
   0 < budget_remaining (get_session_summary (fresh_generator True False 1)) \<and>
   videos_loop plain_options [sample_scene, second_scene]
      (fresh_generator True False 1) friendly_world Map.empty [] =
   videos_loop plain_options [second_scene]
      (fresh_generator True False 1) friendly_world [1 \<mapsto> NoVideo] [1]"
proof -
  let ?g1 = "fst (snd after_first_call)"
  let ?w1 = "snd (snd after_first_call)"
  let ?p = "output_path_of (fresh_generator True False 5) sample_scene"
  have ex: "budget_remaining (get_session_summary ?g1) \<le> 0"
    by (simp add: after_first_call_value get_session_summary_def update_tracking_def
        fresh_generator_def)
  have pos5: "0 < budget_remaining (get_session_summary (fresh_generator True False 5))"
    by (simp add: get_session_summary_def fresh_generator_def)
  have c1: "generate_scene_video (fresh_generator True False 5) friendly_world sample_scene
      (reference_image_path plain_options sample_scene) = (Inr (Some ?p), ?g1, ?w1)"
    unfolding plain_options_simps after_first_call_def[symmetric]
    by (simp add: after_first_call_value)
  have r1: "rich_renders ?w1 m" for m
    by (simp add: after_first_call_value friendly_renders)
  have step1: "videos_loop plain_options [sample_scene, second_scene]
      (fresh_generator True False 5) friendly_world Map.empty [] =
     videos_loop plain_options [second_scene] ?g1 ?w1 [scene_id sample_scene \<mapsto> Saved ?p]
       ([] @ [scene_id sample_scene])"
    by (rule videos_loop_continues_after_Some[OF sample_ids_print(1) plain_options_simps(2)
          pos5 c1 output_path_nonempty r1]) (simp add: plain_options_simps)
  from budget_exhaustion_halts_batch[where g = ?g1 and opts = plain_options
      and scenes = "[second_scene]" and w = ?w1
      and results = "[scene_id sample_scene \<mapsto> Saved ?p]"
      and attempted = "[] @ [scene_id sample_scene]"] ex
  obtain out where "videos_loop plain_options [second_scene] ?g1 ?w1
      [scene_id sample_scene \<mapsto> Saved ?p] ([] @ [scene_id sample_scene]) =
      (out, ?g1, ?w1, [] @ [scene_id sample_scene])"
    by blast
  with step1 have a: "snd (snd (snd (videos_loop plain_options [sample_scene, second_scene]
      (fresh_generator True False 5) friendly_world Map.empty []))) = [1]"
    by (simp add: sample_scene_def)
  have pos10: "0 < budget_remaining (get_session_summary (fresh_generator False False 10))"
    by (simp add: get_session_summary_def fresh_generator_def)
  have c2: "generate_scene_video (fresh_generator False False 10) flaky_world sample_scene
       (reference_image_path plain_options sample_scene)
     = (Inr None, fresh_generator False False 10, flaky_world\<lparr> api_calls := 3 \<rparr>)"
    unfolding plain_options_simps by (rule flaky_call_value)
  have r2: "rich_renders (flaky_world\<lparr> api_calls := 3 \<rparr>) (FailedLine (title sample_scene))"
    by (simp add: flaky_world_def friendly_world_def)
  from budget_exhaustion_halts_batch[where g = "fresh_generator False False 10"
      and opts = plain_options and sc = sample_scene and w = flaky_world
      and g' = "fresh_generator False False 10" and w' = "flaky_world\<lparr> api_calls := 3 \<rparr>"
      and rest = "[second_scene]" and results = Map.empty and attempted = "[]"]
    plain_options_simps(2) pos10 c2 r2 sample_ids_print(1)
  have "videos_loop plain_options (sample_scene # [second_scene])
      (fresh_generator False False 10) flaky_world Map.empty [] =
     videos_loop plain_options [second_scene]
      (fresh_generator False False 10) (flaky_world\<lparr> api_calls := 3 \<rparr>)
      [scene_id sample_scene \<mapsto> NoVideo] ([] @ [scene_id sample_scene])"
    by blast
  then have b: "videos_loop plain_options [sample_scene, second_scene]
      (fresh_generator False False 10) flaky_world Map.empty [] =
     videos_loop plain_options [second_scene]
      (fresh_generator False False 10) (flaky_world\<lparr> api_calls := 3 \<rparr>)
      [1 \<mapsto> NoVideo] [1]"
    by (simp add: sample_scene_def)
  let ?poor = "fresh_generator True False 1"
  have pos1: "0 < budget_remaining (get_session_summary ?poor)"
    by (simp add: get_session_summary_def fresh_generator_def)
  have short: "budget_limit ?poor
      < session_cost ?poor + DEFAULT_DURATION * ESTIMATED_COST_PER_SECOND"
    by (simp add: estimated_cost_value fresh_generator_def)
  from budget_exhaustion_halts_batch[where g = ?poor
      and opts = plain_options and sc = sample_scene and w = friendly_world
      and rest = "[second_scene]" and results = Map.empty and attempted = "[]"]
    plain_options_simps(2) pos1 short sample_ids_print(1)
    not_served_fresh[of True False 1 friendly_world sample_scene]
    friendly_renders[of "FailedLine (title sample_scene)"]
  have "videos_loop plain_options (sample_scene # [second_scene]) ?poor friendly_world
      Map.empty [] =
     videos_loop plain_options [second_scene] ?poor friendly_world
      [scene_id sample_scene \<mapsto> NoVideo] ([] @ [scene_id sample_scene])"
    by blast
  then have c: "videos_loop plain_options [sample_scene, second_scene] ?poor friendly_world
      Map.empty [] =
     videos_loop plain_options [second_scene] ?poor friendly_world [1 \<mapsto> NoVideo] [1]"
    by (simp add: sample_scene_def)
  from ex a pos10 c2 b pos1 c show ?thesis by (intro conjI)
qed

subsection \<open>Error boundary\<close>

text \<open>
  Claim C8 fails on the code. For a scene whose identifier has more digits than the
  interpreter prints, the logging line of \<^verbatim>\<open>_build_video_prompt\<close> raises
  \<open>ValueError\<close> inside the \<^verbatim>\<open>try\<close> block; the handler that catches it builds its own
  log message from the same identifier, raises \<open>ValueError\<close> again, and this exception
  leaves \<^verbatim>\<open>generate_scene_video\<close>.
\<close>

theorem handler_raises_on_huge_id:
  "generate_scene_video_body (fresh_generator True False 10) friendly_world huge_scene None =
     (Inl ValueError, fresh_generator True False 10, friendly_world) \<and>
   handler huge_scene = Inl ValueError \<and>
   generate_scene_video (fresh_generator True False 10) friendly_world huge_scene None =
     (Inl ValueError, fresh_generator True False 10, friendly_world)"
  by (simp add: body_no_print gsv_no_print handler_value huge_id_does_not_print)

text \<open>
  For a scene whose identifier can be printed, every failure of a request that the cache
  does not answer ends in \<^verbatim>\<open>None\<close> with the generator unchanged: any exception raised
  in the body, the budget check failing, a cached path or a reference image that cannot be
  probed, the service call giving nothing after its retries, a response whose video url is
  missing, empty or unreadable, a failed download, a placeholder file that cannot be
  written.
\<close>

lemma failure_modes_return_None:
  assumes "int_prints (scene_id sc)" and "\<not> served_from_cache g w sc"
  shows "(\<forall>e. fst (generate_scene_video_body g w sc image_path) = Inl e \<longrightarrow>
            fst (generate_scene_video g w sc image_path) = Inr None) \<and>
         (budget_limit g < session_cost g + DEFAULT_DURATION * ESTIMATED_COST_PER_SECOND \<longrightarrow>
            generate_scene_video g w sc image_path = (Inr None, g, w)) \<and>
         (cache_probe_raises g w sc \<longrightarrow>
            generate_scene_video g w sc image_path = (Inr None, g, w)) \<and>
         (\<not> cache_probe_raises g w sc \<and>
          session_cost g + DEFAULT_DURATION * ESTIMATED_COST_PER_SECOND \<le> budget_limit g \<longrightarrow>
            (\<forall>e w1. call_fal_api g w (build_video_prompt sc image_path) image_path = (Inl e, w1) \<longrightarrow>
               generate_scene_video g w sc image_path = (Inr None, g, w1)) \<and>
            (\<forall>w1. call_fal_api g w (build_video_prompt sc image_path) image_path = (Inr None, w1) \<longrightarrow>
               generate_scene_video g w sc image_path = (Inr None, g, w1)) \<and>
            (\<forall>r w1. call_fal_api g w (build_video_prompt sc image_path) image_path
                       = (Inr (Some r), w1) \<longrightarrow>
               ((\<exists>e. get_video_url r = Inl e) \<or> get_video_url r = Inr None \<or>
                get_video_url r = Inr (Some []) \<longrightarrow>
                  generate_scene_video g w sc image_path = (Inr None, g, w1)) \<and>
               (\<forall>u w2. get_video_url r = Inr (Some u) \<and> u \<noteq> [] \<and>
                   \<not> dry_run g \<and> \<not> simulate g \<and>
                   download_video w1 u (output_path_of g sc) = (False, w2) \<longrightarrow>
                  generate_scene_video g w sc image_path = (Inr None, g, w2)) \<and>
               (\<forall>u e. get_video_url r = Inr (Some u) \<and> u \<noteq> [] \<and>
                   (dry_run g \<or> simulate g) \<and>
                   write_text w1 (output_path_of g sc) = Inl e \<longrightarrow>
                  generate_scene_video g w sc image_path = (Inr None, g, w1))))"
proof -
  let ?P = "build_video_prompt sc image_path"
  have P: "build_video_prompt sc None = ?P" by (simp add: build_video_prompt_image[of sc image_path])
  have h: "handler sc = Inr None" using assms(1) by (simp add: handler_value)
  have 1: "\<forall>e. fst (generate_scene_video_body g w sc image_path) = Inl e \<longrightarrow>
            fst (generate_scene_video g w sc image_path) = Inr None"
    using gsv_exception_is_handled[of g w sc image_path] h by auto
  have 2: "generate_scene_video g w sc image_path = (Inr None, g, w)"
    if "budget_limit g < session_cost g + 5"
    using gsv_over_budget[OF assms(2) that, of image_path] h by simp
  have pr: "generate_scene_video g w sc image_path = (Inr None, g, w)"
    if "cache_probe_raises g w sc"
    using gsv_probe_raises[OF assms(1) that] .
  have rest: ?thesis if nr: "\<not> cache_probe_raises g w sc"
  proof -
    note b = body_miss[OF assms(1,2) nr, of image_path, unfolded P]
    have 3: "generate_scene_video g w sc image_path = (Inr None, g, w1)"
      if "session_cost g + 5 \<le> budget_limit g" "call_fal_api g w ?P image_path = (Inl e, w1)"
      for e w1
      by (simp add: gsv_of_body b generate_uncached_api_raises[OF that] h)
    have 4: "generate_scene_video g w sc image_path = (Inr None, g, w1)"
      if "session_cost g + 5 \<le> budget_limit g" "call_fal_api g w ?P image_path = (Inr None, w1)"
      for w1
      by (simp add: gsv_of_body b generate_uncached_api_none[OF that])
    have 5: "generate_scene_video g w sc image_path = (Inr None, g, w1)"
      if "session_cost g + 5 \<le> budget_limit g"
        "call_fal_api g w ?P image_path = (Inr (Some r), w1)"
        "(\<exists>e. get_video_url r = Inl e) \<or> get_video_url r = Inr None \<or>
         get_video_url r = Inr (Some [])" for r w1
      using that(3) generate_uncached_failures(1,2)[OF that(1,2)]
      by (auto simp: gsv_of_body b h)
    have 6: "generate_scene_video g w sc image_path = (Inr None, g, w2)"
      if "session_cost g + 5 \<le> budget_limit g"
        "call_fal_api g w ?P image_path = (Inr (Some r), w1)"
        "get_video_url r = Inr (Some u)" "u \<noteq> []" "\<not> dry_run g \<and> \<not> simulate g"
        "download_video w1 u (output_path_of g sc) = (False, w2)" for r w1 u w2
      using generate_uncached_failures(3)[OF that] by (simp add: gsv_of_body b)
    have 7: "generate_scene_video g w sc image_path = (Inr None, g, w1)"
      if "session_cost g + 5 \<le> budget_limit g"
        "call_fal_api g w ?P image_path = (Inr (Some r), w1)"
        "get_video_url r = Inr (Some u)" "u \<noteq> []" "dry_run g \<or> simulate g"
        "write_text w1 (output_path_of g sc) = Inl e" for r w1 u e
      using generate_uncached_failures(4)[OF that] by (simp add: gsv_of_body b h)
    show ?thesis
      unfolding estimated_cost_value
      by (intro conjI allI impI) (use 1 2 nr 3 4 5 6 7 in blast)+
  qed
  show ?thesis
  proof (cases "cache_probe_raises g w sc")
    case True
    with 1 2 pr show ?thesis unfolding estimated_cost_value by blast
  next
    case False
    then show ?thesis by (rule rest)
  qed
qed

text \<open>
  The handler of the batch loop prints the title of the scene once more. When rich cannot
  render the title, the line for a failed generation raises \<open>MarkupError\<close>, the handler's
  own line raises it again, and the exception ends the loop with the scenes that follow
  unprocessed.
\<close>

lemma unrenderable_title_ends_batch:
  "generate_scene_video (fresh_generator True False 1) strict_world tagged_scene None =
     (Inr None, fresh_generator True False 1, strict_world) \<and>
   videos_loop plain_options [tagged_scene, second_scene]
      (fresh_generator True False 1) strict_world Map.empty [] =
   (Inl MarkupError, fresh_generator True False 1, strict_world, [1])"
proof -
  let ?g = "fresh_generator True False 1"
  have pos: "0 < budget_remaining (get_session_summary ?g)"
    by (simp add: get_session_summary_def fresh_generator_def)
  have ob: "budget_limit ?g < session_cost ?g + 5" by (simp add: fresh_generator_def)
  have c: "generate_scene_video ?g strict_world tagged_scene img = (Inr None, ?g, strict_world)"
    for img
    using gsv_over_budget[OF not_served_fresh ob, of strict_world tagged_scene img]
    by (simp add: handler_value sample_ids_print)
  have "videos_loop plain_options (tagged_scene # [second_scene]) ?g strict_world Map.empty [] =
     (Inl MarkupError, ?g, strict_world, [] @ [scene_id tagged_scene])"
    by (rule videos_loop_raises_after_None[OF sample_ids_print(5) plain_options_simps(2) pos c
          strict_world_simps(1) strict_world_simps(2)])
  with c show ?thesis by (simp add: tagged_scene_def sample_scene_def)
qed

subsection \<open>Construction\<close>

text \<open>
  Claim C9. In dry-run or simulate mode the outcome of construction does not depend on the
  credential or on the client library being installed, and construction succeeds whenever
  the assets directory can be created. In production mode, with \<^verbatim>\<open>FAL_KEY\<close> unset or
  empty, construction fails: \<^verbatim>\<open>_init_fal_client\<close> raises
  \<^verbatim>\<open>VideoGenerationError\<close>, at once and without any call to the service.
\<close>

theorem credential_only_in_production:
  "(dry \<or> sim \<longrightarrow>
      fst (init (w\<lparr> fal_key := k, fal_client_installed := b \<rparr>) dry sim limit)
        = fst (init w dry sim limit) \<and>
      (mkdir_ok w \<longrightarrow> (\<exists>g. fst (init w dry sim limit) = Inr g))) \<and>
   (\<not> dry \<and> \<not> sim \<and> (fal_key w = None \<or> fal_key w = Some []) \<longrightarrow>
      (\<exists>e. fst (init w dry sim limit) = Inl e) \<and>
      (mkdir_ok w \<longrightarrow> (\<exists>m. fst (init w dry sim limit) = Inl (VideoGenerationError m))) \<and>
      api_calls (snd (init w dry sim limit)) = api_calls w) \<and>
   (dry_run g \<or> simulate g \<longrightarrow> init_fal_client g w = Inr ()) \<and>
   (\<not> dry_run g \<and> \<not> simulate g \<and> (fal_key w = None \<or> fal_key w = Some []) \<longrightarrow>
      (\<exists>m. init_fal_client g w = Inl (VideoGenerationError m)))"
  by (auto simp: init_def init_fal_client_def Let_def split: option.splits)

theorem credential_only_in_production_witness:
  "fst (init (friendly_world\<lparr> fal_key := None, fal_client_installed := False \<rparr>) True False 10)
     = Inr (fresh_generator True False 10) \<and>
   fst (init (friendly_world\<lparr> fal_key := None \<rparr>) False False 10)
     = Inl (VideoGenerationError ''FAL_KEY not found in environment variables'')"
proof -
  have i: "fst (init friendly_world True False 10) = Inr (fresh_generator True False 10)"
    by (simp add: init_friendly)
  from credential_only_in_production[where dry = True and sim = False and w = friendly_world
      and k = None and b = False and limit = 10]
  have 1: "fst (init (friendly_world\<lparr> fal_key := None, fal_client_installed := False \<rparr>)
      True False 10) = Inr (fresh_generator True False 10)"
    using i by simp
  have k: "fal_key (friendly_world\<lparr> fal_key := None \<rparr>) = None"
    "mkdir_ok (friendly_world\<lparr> fal_key := None \<rparr>)"
    by (simp_all add: friendly_world_def)
  from credential_only_in_production[where dry = False and sim = False
      and w = "friendly_world\<lparr> fal_key := None \<rparr>" and limit = 10] k
  obtain m where "fst (init (friendly_world\<lparr> fal_key := None \<rparr>) False False 10)
      = Inl (VideoGenerationError m)"
    by blast
  moreover have "fst (init (friendly_world\<lparr> fal_key := None \<rparr>) False False 10)
     = Inl (VideoGenerationError ''FAL_KEY not found in environment variables'')"
    by (simp add: init_def init_fal_client_def friendly_world_def Let_def)
  ultimately show ?thesis using 1 by simp
qed

end
